theory Spec2Isabelle
  imports Main "HOL-Library.Sublist"
begin

section \<open>Data model (models.js)\<close>

text \<open>
  The \<open>License\<close> table of models.js. \<open>plan\<close> and \<open>status\<close> are database enums,
  \<open>token\<close> and \<open>mpPreapprovalId\<close> are nullable strings, \<open>devices\<close> is a nullable
  string array (default \<open>[]\<close>), \<open>expiresAt\<close> is a non-null date, kept here as
  milliseconds since the epoch (what \<open>getTime()\<close> returns). \<open>features\<close> is a JSON
  object of which the server reads two flags through \<open>Boolean(... || false)\<close>; the
  third feature it signs, \<open>sync\<close>, is the constant \<open>true\<close> and is left out.
\<close>

datatype plan = Single | Multi

datatype status = Inactive | Active | Paused | Cancelled

record features =
  whatsapp_bot :: bool
  ai_cameras :: bool

record license =
  lid :: nat
  userId :: nat
  token :: "string option"
  plan :: plan
  status :: status
  expiresAt :: int
  devices :: "string list option"
  mpPreapprovalId :: "string option"
  features :: features

record user =
  uid :: nat
  email :: string

text \<open>
  What the payment provider returns for a preapproval (mercadopago.js,
  \<open>getPreapprovalById\<close>). \<open>external_reference\<close> holds the value of
  \<open>Number(pre.external_reference)\<close>, \<open>None\<close> when the field is absent or empty.
\<close>

record preapproval =
  pre_id :: string
  pre_status :: string
  external_reference :: "nat option"

text \<open>The payload \<open>createSubscriptionDirect\<close> sends to the provider.\<close>

record mp_payload =
  reason_plan :: plan
  payload_external_reference :: nat
  back_url :: string
  payer_email :: string
  transaction_amount :: int
  currency_id :: string

text \<open>
  The provider is outside the repository: its answers are a parameter. A call either
  returns (\<open>Inr\<close>) or throws (\<open>Inl st\<close>, with \<open>st\<close> the value of
  \<open>Number(err.status)\<close>, 0 when there is none). \<open>mp_create\<close> returns the pair
  \<open>(id, init_point)\<close> of the response body, the empty string for a missing field.
\<close>

record provider =
  mp_get :: "string \<Rightarrow> nat + preapproval"
  mp_update :: "string \<Rightarrow> string \<Rightarrow> nat + unit"
  mp_create :: "mp_payload \<Rightarrow> nat + (string \<times> string)"

datatype mp_call =
    MpGet string
  | MpUpdate string string
  | MpCreate mp_payload

text \<open>
  The state the handlers read and write: the two tables, and the log of the calls made to
  the provider (an output, kept to state which calls a request issues).
\<close>

record world =
  licenses :: "license list"
  users :: "user list"
  mp_log :: "mp_call list"

section \<open>The signed assertion (license-sign.js)\<close>

record jws_payload =
  sub :: nat
  uid_claim :: nat
  plan_claim :: plan
  sta :: status
  dev :: string
  max_claim :: nat
  fea :: features
  tok :: "string option"
  lic_claim :: nat
  ver :: nat
  iat :: int
  exp :: int

text \<open>
  The process configuration. \<open>PRIVATE_PEM\<close> and \<open>PUBLIC_PEM\<close> are the decoded keys
  (empty when unset), \<open>LICENSE_OFFLINE_TTL_SEC\<close> the numeric value of the environment
  variable when it is set, \<open>publicKeyOf\<close> the RSA public key that belongs to a private
  key, \<open>LocalTZA t isUTC\<close> the offset in milliseconds of the local time zone of the
  process (ECMAScript's LocalTZA: at the UTC time \<open>t\<close> when \<open>isUTC\<close>, at the local
  time \<open>t\<close> otherwise), \<open>httpsBack\<close> the result of
  \<open>ensureHttps(computeMpBackUrl())\<close> (\<open>None\<close> when the URL is not https),
  \<open>PRICE_SINGLE\<close>, \<open>PRICE_MULTI\<close> and \<open>MP_CURRENCY\<close> the price table.
\<close>

record env =
  PRIVATE_PEM :: string
  PUBLIC_PEM :: string
  LICENSE_OFFLINE_TTL_SEC :: "int option"
  publicKeyOf :: "string \<Rightarrow> string"
  LocalTZA :: "int \<Rightarrow> bool \<Rightarrow> int"
  httpsBack :: "string option"
  PRICE_SINGLE :: int
  PRICE_MULTI :: int
  MP_CURRENCY :: string

definition DEFAULT_TTL_SEC :: "env \<Rightarrow> int" where
  "DEFAULT_TTL_SEC e = (case LICENSE_OFFLINE_TTL_SEC e of None \<Rightarrow> 72 * 3600 | Some n \<Rightarrow> n)"

record sign_input =
  in_userId :: nat
  in_licenseId :: nat
  in_token :: "string option"
  in_plan :: plan
  in_status :: status
  in_deviceId :: string
  in_maxDevices :: nat
  in_features :: features

definition licensePayload :: "sign_input \<Rightarrow> int \<Rightarrow> int \<Rightarrow> jws_payload" where
  "licensePayload p now ttlSec =
     \<lparr> sub = in_licenseId p, uid_claim = in_userId p, plan_claim = in_plan p,
       sta = in_status p, dev = in_deviceId p, max_claim = in_maxDevices p,
       fea = in_features p, tok = in_token p, lic_claim = in_licenseId p, ver = 1,
       iat = now div 1000, exp = now div 1000 + ttlSec \<rparr>"

text \<open>
  Modelled from the spec: the functions \<open>jwt.sign\<close> and \<open>jwt.verify\<close> of the
  jsonwebtoken library, which license-sign.js calls and which are not under src/. The
  spec (4.1) asks for a tamper-evident assertion signed with the private key and
  verifiable with the public key, and for a verification that validates signature and
  expiry and fails with InvalidSignatureError or ExpiredError. A signed token is kept
  symbolically, as the payload together with the key that signed it: \<open>jwt.verify\<close>
  with algorithm RS256 first checks the signature, which holds when the key it is given
  is the public key of the signing key, and then the \<open>exp\<close> claim against the clock in
  seconds, the token being expired from the second \<open>exp\<close> on. The configured keys are
  taken to be well-formed RSA keys, so that signing with a non-empty key does not throw.
\<close>

datatype jws = JWS jws_payload string

datatype verify_error = ConfigurationError | InvalidSignatureError | ExpiredError

definition jwt_sign :: "jws_payload \<Rightarrow> string \<Rightarrow> jws" where
  "jwt_sign payload privateKey = JWS payload privateKey"

definition jwt_verify :: "(string \<Rightarrow> string) \<Rightarrow> jws \<Rightarrow> string \<Rightarrow> int \<Rightarrow> verify_error + jws_payload" where
  "jwt_verify pubOf j publicKey clockTimestamp =
     (case j of
        JWS payload signingKey \<Rightarrow>
          if pubOf signingKey \<noteq> publicKey then Inl InvalidSignatureError
          else if exp payload \<le> clockTimestamp then Inl ExpiredError
          else Inr payload)"

text \<open>\<open>signLicenseJWS\<close>: throws (\<open>None\<close>) without a private key.\<close>

definition signLicenseJWS :: "env \<Rightarrow> int \<Rightarrow> sign_input \<Rightarrow> jws option" where
  "signLicenseJWS e now p =
     (if PRIVATE_PEM e = [] then None
      else Some (jwt_sign (licensePayload p now (DEFAULT_TTL_SEC e)) (PRIVATE_PEM e)))"

text \<open>\<open>verifyLicenseJWS\<close>, called at the time \<open>now\<close> (milliseconds): throws without a
  public key.\<close>

definition verifyLicenseJWS :: "env \<Rightarrow> int \<Rightarrow> jws \<Rightarrow> verify_error + jws_payload" where
  "verifyLicenseJWS e now j =
     (if PUBLIC_PEM e = [] then Inl ConfigurationError
      else jwt_verify (publicKeyOf e) j (PUBLIC_PEM e) (now div 1000))"

section \<open>Helpers of server.js\<close>

definition limitForPlan :: "plan \<Rightarrow> nat" where
  "limitForPlan p = (if p = Multi then 3 else 1)"

text \<open>
  A JavaScript \<open>Set\<close> built from an array: the distinct elements in the order of their
  first insertion. \<open>set_add\<close> is \<open>Set.prototype.add\<close>, \<open>newSet\<close> the constructor,
  and \<open>[...set]\<close> is the list itself.
\<close>

definition set_add :: "string list \<Rightarrow> string \<Rightarrow> string list" where
  "set_add s x = (if x \<in> set s then s else s @ [x])"

definition newSet :: "string list \<Rightarrow> string list" where
  "newSet xs = fold (\<lambda>x s. set_add s x) xs []"

text \<open>\<open>lic.devices || []\<close>\<close>

definition devicesOrEmpty :: "license \<Rightarrow> string list" where
  "devicesOrEmpty l = (case devices l of None \<Rightarrow> [] | Some ds \<Rightarrow> ds)"

text \<open>JavaScript truthiness of a nullable string: neither null nor empty.\<close>

definition truthy :: "string option \<Rightarrow> bool" where
  "truthy v = (case v of None \<Rightarrow> False | Some s \<Rightarrow> s \<noteq> [])"

fun first_truthy :: "string option list \<Rightarrow> string option" where
  "first_truthy [] = None"
| "first_truthy (v # vs) = (if truthy v then v else first_truthy vs)"
text \<open>
  \<open>License.findOne({ where })\<close> returns the first row that matches. \<open>lic.save()\<close>
  writes the row with the primary key of \<open>lic\<close> and \<open>License.create\<close> appends a row
  with a fresh primary key, unless the database refuses the write, in which case the call
  throws (\<open>None\<close>) and nothing is written. The database refuses what models.js
  declares: a value longer than its column (\<open>STRING(120)\<close> for \<open>token\<close> and
  \<open>mpPreapprovalId\<close>, the default 255 for a device id), a non-null \<open>token\<close> or
  \<open>mpPreapprovalId\<close> that another row holds (the unique indexes), and, for a new row,
  a \<open>userId\<close> that is not the key of a user (the foreign key of \<open>belongsTo\<close>).
\<close>

definition findOne :: "(license \<Rightarrow> bool) \<Rightarrow> world \<Rightarrow> license option" where
  "findOne P w = find P (licenses w)"

definition fitsColumns :: "license \<Rightarrow> bool" where
  "fitsColumns l =
     ((case token l of None \<Rightarrow> True | Some t \<Rightarrow> length t \<le> 120) \<and>
      (case mpPreapprovalId l of None \<Rightarrow> True | Some i \<Rightarrow> length i \<le> 120) \<and>
      (case devices l of None \<Rightarrow> True | Some ds \<Rightarrow> list_all (\<lambda>d. length d \<le> 255) ds))"

definition clashes :: "license \<Rightarrow> license \<Rightarrow> bool" where
  "clashes l r =
     (lid r \<noteq> lid l \<and>
      ((token l \<noteq> None \<and> token r = token l) \<or>
       (mpPreapprovalId l \<noteq> None \<and> mpPreapprovalId r = mpPreapprovalId l)))"

definition writable :: "license \<Rightarrow> world \<Rightarrow> bool" where
  "writable l w = (fitsColumns l \<and> \<not> list_ex (clashes l) (licenses w))"

definition written :: "license \<Rightarrow> world \<Rightarrow> world" where
  "written l w = w\<lparr>licenses := map (\<lambda>r. if lid r = lid l then l else r) (licenses w)\<rparr>"

definition save :: "license \<Rightarrow> world \<Rightarrow> world option" where
  "save l w = (if writable l w then Some (written l w) else None)"

definition freshId :: "world \<Rightarrow> nat" where
  "freshId w = Suc (fold max (map lid (licenses w)) 0)"

definition create :: "license \<Rightarrow> world \<Rightarrow> world option" where
  "create l w =
     (let l' = l\<lparr>lid := freshId w\<rparr>
      in if userId l \<in> set (map uid (users w)) \<and> writable l' w
         then Some (w\<lparr>licenses := licenses w @ [l']\<rparr>)
         else None)"

section \<open>Responses\<close>

text \<open>
  The error bodies of server.js, one constructor per message:
  \<open>Unauthorized\<close> the 401 of auth.js,
  \<open>DeviceIdRequired\<close> "deviceId requerido",
  \<open>NoActiveLicense\<close> "No hay licencia activa",
  \<open>DeviceLimitReached max\<close> "Limite de dispositivos alcanzado (max)",
  \<open>InternalError\<close> "Error interno",
  \<open>NoLicense\<close> "Sin licencia",
  \<open>TokenAndDeviceRequired\<close> "token y deviceId requeridos",
  \<open>LicenseNotFound\<close> "Licencia no encontrada",
  \<open>LicenseNotActive st\<close> "Licencia no activa (st)",
  \<open>LicenseExpired\<close> "Licencia expirada",
  \<open>DeviceNotLinked\<close> "Este dispositivo no esta vinculado a la licencia",
  \<open>ValidateFailed\<close> "Error al validar licencia",
  \<open>RefreshFailed\<close> "Error al refrescar licencia",
  \<open>InvalidPlan\<close> "Plan invalido",
  \<open>UserNotFound\<close> "Usuario no encontrado",
  \<open>SubscribeFailed\<close> "No se pudo crear la suscripcion",
  \<open>NoSubscription\<close> "No hay suscripcion para cancelar / pausar / reanudar",
  \<open>ManageFailed\<close> "No se pudo cancelar / pausar / reanudar la suscripcion",
  \<open>ChangeMethodFailed\<close> "No se pudo iniciar el cambio de medio de pago".
\<close>

datatype reason =
    Unauthorized
  | DeviceIdRequired
  | NoActiveLicense
  | DeviceLimitReached nat
  | InternalError
  | NoLicense
  | TokenAndDeviceRequired
  | LicenseNotFound
  | LicenseNotActive status
  | LicenseExpired
  | DeviceNotLinked
  | ValidateFailed
  | RefreshFailed
  | InvalidPlan
  | UserNotFound
  | SubscribeFailed
  | NoSubscription
  | ManageFailed
  | ChangeMethodFailed

record license_summary =
  sum_id :: nat
  sum_plan :: plan
  sum_status :: status
  sum_expiresAt :: int
  sum_devices :: "string list option"

datatype redirect =
    MissingPreapproval
  | ReturnOk string
  | ReturnOther string string
  | ReturnError

datatype body =
    ErrorJson reason
  | LicenseJson license
  | AssertionJson jws license_summary int
  | InitPointJson string
  | ChangeMethodJson string string
  | OkJson
  | OkText
  | RedirectHtml redirect

text \<open>A response with its status code, or no response at all: the handler threw while
  it was answering.\<close>

datatype response = Response nat body | NoResponse

text \<open>
  \<open>res.status(Number(err?.status) || 500).json({ error })\<close> in a \<open>catch\<close> block,
  \<open>st\<close> being the value of \<open>Number(err.status)\<close> (0 when the error has none): a code
  outside 100 to 999 is not a status code, the call throws and nothing is sent.
\<close>

definition catchResponse :: "nat \<Rightarrow> reason \<Rightarrow> response" where
  "catchResponse st r =
     (let code = (if st = 0 then 500 else st)
      in if 100 \<le> code \<and> code \<le> 999 then Response code (ErrorJson r) else NoResponse)"

section \<open>Device binding (server.js, /license/devices/attach and /detach)\<close>

text \<open>
  The first argument of a protected handler is the outcome of the \<open>auth\<close> middleware:
  the account id of a valid bearer token, or \<open>None\<close>. A missing body field is the empty
  string.
\<close>

definition attach :: "nat option \<Rightarrow> string \<Rightarrow> world \<Rightarrow> response \<times> world" where
  "attach auth deviceId w =
     (case auth of
        None \<Rightarrow> (Response 401 (ErrorJson Unauthorized), w)
      | Some u \<Rightarrow>
          if deviceId = [] then (Response 400 (ErrorJson DeviceIdRequired), w)
          else
            (case findOne (\<lambda>l. userId l = u \<and> status l = Active) w of
               None \<Rightarrow> (Response 404 (ErrorJson NoActiveLicense), w)
             | Some lic \<Rightarrow>
                 let mx = limitForPlan (plan lic);
                     s = newSet (devicesOrEmpty lic)
                 in if deviceId \<in> set s then (Response 200 (LicenseJson lic), w)
                    else if length s \<ge> mx
                      then (Response 403 (ErrorJson (DeviceLimitReached mx)), w)
                    else
                      let lic' = lic\<lparr>devices := Some (set_add s deviceId)\<rparr>
                      in (case save lic' w of
                            None \<Rightarrow> (Response 500 (ErrorJson InternalError), w)
                          | Some w' \<Rightarrow> (Response 200 (LicenseJson lic'), w'))))"


section \<open>Dates and tokens (the JavaScript runtime)\<close>

text \<open>
  \<open>Date\<close> arithmetic as ECMAScript defines it, for times from 1970 on. A time value is
  a number of milliseconds since the epoch; months are numbered from 0. \<open>getMonth\<close>,
  \<open>getDate\<close>, \<open>setMonth\<close> and \<open>setDate\<close> work in the local time of the process:
  they read the fields of \<open>LocalTime t\<close> and turn the local time they build back with
  \<open>UTC\<close>.
\<close>

definition msPerDay :: int where
  "msPerDay = 86400000"

definition Day :: "int \<Rightarrow> nat" where
  "Day t = nat (t div msPerDay)"

definition TimeWithinDay :: "int \<Rightarrow> int" where
  "TimeWithinDay t = t mod msPerDay"

definition leap :: "nat \<Rightarrow> bool" where
  "leap y = ((y mod 4 = 0 \<and> y mod 100 \<noteq> 0) \<or> y mod 400 = 0)"

definition DaysInYear :: "nat \<Rightarrow> nat" where
  "DaysInYear y = (if leap y then 366 else 365)"

definition DaysInMonth :: "nat \<Rightarrow> nat \<Rightarrow> nat" where
  "DaysInMonth y m =
     (if m = 1 then (if leap y then 29 else 28)
      else if m = 3 \<or> m = 5 \<or> m = 8 \<or> m = 10 then 30
      else 31)"

text \<open>The year that holds day \<open>d\<close>, counted from the first day of year \<open>y\<close>, and the
  day within that year.\<close>

function yearFrom :: "nat \<Rightarrow> nat \<Rightarrow> nat \<times> nat" where
  "yearFrom y d = (if d < DaysInYear y then (y, d) else yearFrom (Suc y) (d - DaysInYear y))"
  by pat_completeness auto
termination
  by (relation "measure (\<lambda>(y, d). d)") (auto simp: DaysInYear_def)

function monthFrom :: "nat \<Rightarrow> nat \<Rightarrow> nat \<Rightarrow> nat \<times> nat" where
  "monthFrom y m d =
     (if 11 \<le> m \<or> d < DaysInMonth y m then (m, d)
      else monthFrom y (Suc m) (d - DaysInMonth y m))"
  by pat_completeness auto
termination
  by (relation "measure (\<lambda>(y, m, d). 11 - m)") auto

definition YearFromTime :: "int \<Rightarrow> nat" where
  "YearFromTime t = fst (yearFrom 1970 (Day t))"

definition DayWithinYear :: "int \<Rightarrow> nat" where
  "DayWithinYear t = snd (yearFrom 1970 (Day t))"

definition MonthFromTime :: "int \<Rightarrow> nat" where
  "MonthFromTime t = fst (monthFrom (YearFromTime t) 0 (DayWithinYear t))"

definition DateFromTime :: "int \<Rightarrow> nat" where
  "DateFromTime t = snd (monthFrom (YearFromTime t) 0 (DayWithinYear t)) + 1"

definition DayFromYear :: "nat \<Rightarrow> nat" where
  "DayFromYear y = sum_list (map DaysInYear [1970..<y])"

definition DayFromMonth :: "nat \<Rightarrow> nat \<Rightarrow> nat" where
  "DayFromMonth y m = sum_list (map (DaysInMonth y) [0..<m])"

definition MakeDay :: "nat \<Rightarrow> nat \<Rightarrow> nat \<Rightarrow> nat" where
  "MakeDay year month date =
     (let ym = year + month div 12; mn = month mod 12
      in DayFromYear ym + DayFromMonth ym mn + date - 1)"

definition MakeDate :: "nat \<Rightarrow> int \<Rightarrow> int" where
  "MakeDate day time = int day * msPerDay + time"

definition LocalTime :: "env \<Rightarrow> int \<Rightarrow> int" where
  "LocalTime e t = t + LocalTZA e t True"

definition UTC :: "env \<Rightarrow> int \<Rightarrow> int" where
  "UTC e t = t - LocalTZA e t False"

definition getMonth :: "env \<Rightarrow> int \<Rightarrow> nat" where
  "getMonth e t = MonthFromTime (LocalTime e t)"

definition getDate :: "env \<Rightarrow> int \<Rightarrow> nat" where
  "getDate e t = DateFromTime (LocalTime e t)"

definition setMonth :: "env \<Rightarrow> int \<Rightarrow> nat \<Rightarrow> int" where
  "setMonth e t month =
     UTC e (MakeDate (MakeDay (YearFromTime (LocalTime e t)) month (DateFromTime (LocalTime e t)))
              (TimeWithinDay (LocalTime e t)))"

definition setDate :: "env \<Rightarrow> int \<Rightarrow> nat \<Rightarrow> int" where
  "setDate e t date =
     UTC e (MakeDate (MakeDay (YearFromTime (LocalTime e t)) (MonthFromTime (LocalTime e t)) date)
              (TimeWithinDay (LocalTime e t)))"

text \<open>\<open>Number.prototype.toString(36)\<close> on a natural number.\<close>

definition digit36 :: "nat \<Rightarrow> char" where
  "digit36 d = (''0123456789abcdefghijklmnopqrstuvwxyz'') ! d"

function toString36 :: "nat \<Rightarrow> string" where
  "toString36 n = (if n < 36 then [digit36 n] else toString36 (n div 36) @ [digit36 (n mod 36)])"
  by pat_completeness auto
termination
  by (relation "measure (\<lambda>n. n)") auto

text \<open>
  \<open>generateLicenseToken\<close>; \<open>rnd\<close> stands for
  \<open>Math.random().toString(36).slice(2, 8)\<close> and \<open>now\<close> for \<open>Date.now()\<close>.
\<close>

definition generateLicenseToken :: "string \<Rightarrow> int \<Rightarrow> string" where
  "generateLicenseToken rnd now = ''VS-'' @ rnd @ ''-'' @ toString36 (nat now)"

section \<open>Calls to the provider (mercadopago.js)\<close>

definition logCall :: "mp_call \<Rightarrow> world \<Rightarrow> world" where
  "logCall c w = w\<lparr>mp_log := mp_log w @ [c]\<rparr>"

definition getPreapprovalById :: "provider \<Rightarrow> string \<Rightarrow> world \<Rightarrow> (nat + preapproval) \<times> world" where
  "getPreapprovalById mp i w =
     (if i = [] then (Inl 0, w) else (mp_get mp i, logCall (MpGet i) w))"

definition cancelPreapproval :: "provider \<Rightarrow> string \<Rightarrow> world \<Rightarrow> (nat + unit) \<times> world" where
  "cancelPreapproval mp i w =
     (if i = [] then (Inl 0, w)
      else (mp_update mp i ''cancelled'', logCall (MpUpdate i ''cancelled'') w))"


definition resumePreapproval :: "provider \<Rightarrow> string \<Rightarrow> world \<Rightarrow> (nat + unit) \<times> world" where
  "resumePreapproval mp i w =
     (if i = [] then (Inl 0, w)
      else (mp_update mp i ''authorized'', logCall (MpUpdate i ''authorized'') w))"

definition parsePlan :: "string \<Rightarrow> plan option" where
  "parsePlan s = (if s = ''single'' then Some Single else if s = ''multi'' then Some Multi else None)"


text \<open>\<open>createSubscriptionDirect\<close> returns the pair \<open>(init_point, mpPreapprovalId)\<close>.\<close>

definition createSubscriptionDirect ::
  "env \<Rightarrow> provider \<Rightarrow> nat \<Rightarrow> string \<Rightarrow> string \<Rightarrow> string \<Rightarrow> int \<Rightarrow> world
     \<Rightarrow> (nat + (string \<times> string)) \<times> world" where
  "createSubscriptionDirect e mp u planStr payerEmail currency amount w =
     (if u = 0 then (Inl 0, w)
      else
        (case parsePlan planStr of
           None \<Rightarrow> (Inl 0, w)
         | Some p \<Rightarrow>
             if payerEmail = [] then (Inl 0, w)
             else if amount \<le> 0 then (Inl 0, w)
             else if currency = [] then (Inl 0, w)
             else
               (case httpsBack e of
                  None \<Rightarrow> (Inl 400, w)
                | Some b \<Rightarrow>
                    let payload = \<lparr> reason_plan = p, payload_external_reference = u,
                                     back_url = b, payer_email = payerEmail,
                                     transaction_amount = amount, currency_id = currency \<rparr>;
                        w1 = logCall (MpCreate payload) w
                    in (case mp_create mp payload of
                          Inl st \<Rightarrow> (Inl st, w1)
                        | Inr (i, init_point) \<Rightarrow>
                            if i = [] \<or> init_point = [] then (Inl 502, w1)
                            else (Inr (init_point, i), w1)))))"

section \<open>Subscriptions (server.js, /subscribe, /return, /webhook)\<close>

definition findUser :: "nat \<Rightarrow> world \<Rightarrow> user option" where
  "findUser u w = find (\<lambda>x. uid x = u) (users w)"

text \<open>\<open>mpEmail || user.email\<close>\<close>

definition payerEmailFor :: "string \<Rightarrow> user \<Rightarrow> string" where
  "payerEmailFor mpEmail usr = (if mpEmail \<noteq> [] then mpEmail else email usr)"

definition noFeatures :: features where
  "noFeatures = \<lparr> whatsapp_bot = False, ai_cameras = False \<rparr>"

text \<open>The \<open>catch\<close> block of /subscribe, for an error whose \<open>Number(err.status)\<close> is
  \<open>st\<close>; an error of the database has none.\<close>

definition subscribeCatch :: "nat \<Rightarrow> response" where
  "subscribeCatch st =
     Response (if 400 \<le> st \<and> st < 600 then st else 500) (ErrorJson SubscribeFailed)"

definition subscribe ::
  "env \<Rightarrow> provider \<Rightarrow> int \<Rightarrow> nat option \<Rightarrow> string \<Rightarrow> string \<Rightarrow> world \<Rightarrow> response \<times> world" where
  "subscribe e mp now auth planStr mpEmail w =
     (case auth of
        None \<Rightarrow> (Response 401 (ErrorJson Unauthorized), w)
      | Some u \<Rightarrow>
          (case parsePlan planStr of
             None \<Rightarrow> (Response 400 (ErrorJson InvalidPlan), w)
           | Some p \<Rightarrow>
               (case findUser u w of
                  None \<Rightarrow> (Response 404 (ErrorJson UserNotFound), w)
                | Some usr \<Rightarrow>
                    let amount = (if p = Multi then PRICE_MULTI e else PRICE_SINGLE e)
                    in (case createSubscriptionDirect e mp (uid usr) planStr
                               (payerEmailFor mpEmail usr) (MP_CURRENCY e) amount w of
                          (Inl st, w1) \<Rightarrow> (subscribeCatch st, w1)
                        | (Inr (init_point, newId), w1) \<Rightarrow>
                            let expires = setDate e now (getDate e now + 1);
                                stored =
                                  (case findOne (\<lambda>l. userId l = uid usr) w1 of
                                     Some lic \<Rightarrow>
                                       save (lic\<lparr>plan := p, status := Inactive,
                                                  mpPreapprovalId := Some newId,
                                                  expiresAt := expires\<rparr>) w1
                                   | None \<Rightarrow>
                                       create \<lparr> lid = 0, userId = uid usr, token = None,
                                                plan = p, status = Inactive,
                                                expiresAt = expires, devices = Some [],
                                                mpPreapprovalId = Some newId,
                                                features = noFeatures \<rparr> w1)
                            in (case stored of
                                  None \<Rightarrow> (subscribeCatch 0, w1)
                                | Some w2 \<Rightarrow> (Response 200 (InitPointJson init_point), w2))))))"

text \<open>\<open>pre?.external_reference ? Number(pre.external_reference) : null\<close>, followed by
  the test \<open>if (userId)\<close>: a reference whose number is 0 selects no account.\<close>

definition referencedUser :: "preapproval \<Rightarrow> nat option" where
  "referencedUser pre =
     (case external_reference pre of None \<Rightarrow> None | Some n \<Rightarrow> if n = 0 then None else Some n)"

definition isAuthorized :: "preapproval \<Rightarrow> bool" where
  "isAuthorized pre = (pre_status pre = ''authorized'' \<or> pre_status pre = ''active'')"

text \<open>
  The block that /return (lines 305 to 313) and /webhook (lines 353 to 361) share: cancel
  the preapproval bound so far when it differs from the incoming one, swallowing a
  failure, then bind the incoming one, activate, extend the expiry, give a token to a
  license that has none, and save. \<open>activate\<close> returns whether the save went through.
\<close>

definition cancelOld :: "provider \<Rightarrow> preapproval \<Rightarrow> license \<Rightarrow> world \<Rightarrow> world" where
  "cancelOld mp pre lic w =
     (case mpPreapprovalId lic of
        None \<Rightarrow> w
      | Some old \<Rightarrow>
          if old \<noteq> [] \<and> old \<noteq> pre_id pre then snd (cancelPreapproval mp old w) else w)"

definition activated :: "env \<Rightarrow> int \<Rightarrow> string \<Rightarrow> preapproval \<Rightarrow> license \<Rightarrow> license" where
  "activated e now rnd pre lic =
     (let lic1 = lic\<lparr>mpPreapprovalId := Some (pre_id pre), status := Active,
                      expiresAt := setMonth e now (getMonth e now + 1)\<rparr>
      in if \<not> truthy (token lic1) then lic1\<lparr>token := Some (generateLicenseToken rnd now)\<rparr>
         else lic1)"

definition activate ::
  "env \<Rightarrow> provider \<Rightarrow> int \<Rightarrow> string \<Rightarrow> preapproval \<Rightarrow> license \<Rightarrow> world \<Rightarrow> bool \<times> world" where
  "activate e mp now rnd pre lic w =
     (let w1 = cancelOld mp pre lic w
      in case save (activated e now rnd pre lic) w1 of
           None \<Rightarrow> (False, w1)
         | Some w2 \<Rightarrow> (True, w2))"

record return_query =
  q_preapproval_id :: "string option"
  q_preapprovalId :: "string option"
  q_id :: "string option"

definition returnHandler ::
  "env \<Rightarrow> provider \<Rightarrow> int \<Rightarrow> string \<Rightarrow> return_query \<Rightarrow> world \<Rightarrow> response \<times> world" where
  "returnHandler e mp now rnd q w =
     (case first_truthy [q_preapproval_id q, q_preapprovalId q, q_id q] of
        None \<Rightarrow> (Response 302 (RedirectHtml MissingPreapproval), w)
      | Some preapprovalId \<Rightarrow>
          (case getPreapprovalById mp preapprovalId w of
             (Inl st, w1) \<Rightarrow> (Response 302 (RedirectHtml ReturnError), w1)
           | (Inr pre, w1) \<Rightarrow>
               (case (if isAuthorized pre then referencedUser pre else None) of
                  Some u \<Rightarrow>
                    (case findOne (\<lambda>l. userId l = u) w1 of
                       None \<Rightarrow>
                         (case create \<lparr> lid = 0, userId = u,
                                        token = Some (generateLicenseToken rnd now),
                                        plan = Single, status = Active,
                                        expiresAt = setMonth e now (getMonth e now + 1),
                                        devices = Some [],
                                        mpPreapprovalId = Some (pre_id pre),
                                        features = noFeatures \<rparr> w1 of
                            None \<Rightarrow> (Response 302 (RedirectHtml ReturnError), w1)
                          | Some w2 \<Rightarrow>
                              (Response 302 (RedirectHtml (ReturnOk (pre_id pre))), w2))
                     | Some lic \<Rightarrow>
                         (case activate e mp now rnd pre lic w1 of
                            (False, w2) \<Rightarrow> (Response 302 (RedirectHtml ReturnError), w2)
                          | (True, w2) \<Rightarrow>
                              (Response 302 (RedirectHtml (ReturnOk (pre_id pre))), w2)))
                | None \<Rightarrow>
                    (Response 302
                       (RedirectHtml (ReturnOther (pre_id pre)
                          (if pre_status pre \<noteq> [] then pre_status pre else ''unknown''))), w1))))"

record webhook_request =
  body_type :: "string option"
  query_type :: "string option"
  body_topic :: "string option"
  query_topic :: "string option"
  body_data_id :: "string option"
  query_data_id :: "string option"
  body_id :: "string option"
  query_id :: "string option"

text \<open>Lines 344 to 349: by the referenced account first, by the stored preapproval id
  only when that gave no license.\<close>

definition resolveLicense :: "preapproval \<Rightarrow> world \<Rightarrow> license option" where
  "resolveLicense pre w =
     (let byUser = (case referencedUser pre of
                      None \<Rightarrow> None
                    | Some u \<Rightarrow> findOne (\<lambda>l. userId l = u) w)
      in case byUser of
           Some lic \<Rightarrow> Some lic
         | None \<Rightarrow> findOne (\<lambda>l. mpPreapprovalId l = Some (pre_id pre)) w)"

text \<open>A save inside the \<open>try\<close> of /webhook: a refusal is logged and nothing else
  happens.\<close>

definition saveOrLog :: "license \<Rightarrow> world \<Rightarrow> world" where
  "saveOrLog l w = (case save l w of None \<Rightarrow> w | Some w' \<Rightarrow> w')"

text \<open>What /webhook does after it has answered 200.\<close>

definition webhookProcess ::
  "env \<Rightarrow> provider \<Rightarrow> int \<Rightarrow> string \<Rightarrow> string option \<Rightarrow> string option \<Rightarrow> world \<Rightarrow> world" where
  "webhookProcess e mp now rnd tp dataId w =
     (case (tp, dataId) of
        (Some t, Some d) \<Rightarrow>
          if sublist ''preapproval'' t then
            (case getPreapprovalById mp d w of
               (Inl st, w1) \<Rightarrow> w1
             | (Inr pre, w1) \<Rightarrow>
                 (case resolveLicense pre w1 of
                    None \<Rightarrow> w1
                  | Some lic \<Rightarrow>
                      if isAuthorized pre then snd (activate e mp now rnd pre lic w1)
                      else if pre_status pre = ''paused''
                        then saveOrLog (lic\<lparr>status := Paused\<rparr>) w1
                      else if pre_status pre = ''cancelled''
                        then saveOrLog (lic\<lparr>status := Cancelled\<rparr>) w1
                      else w1))
          else w
      | _ \<Rightarrow> w)"

definition webhook ::
  "env \<Rightarrow> provider \<Rightarrow> int \<Rightarrow> string \<Rightarrow> webhook_request \<Rightarrow> world \<Rightarrow> response \<times> world" where
  "webhook e mp now rnd r w =
     (let tp = first_truthy [body_type r, query_type r, body_topic r, query_topic r];
          dataId = first_truthy [body_data_id r, query_data_id r, body_id r, query_id r]
      in (Response 200 (OkText), webhookProcess e mp now rnd tp dataId w))"

section \<open>Subscription management (server.js, /subscription/...)\<close>

text \<open>After the call to the provider has returned, the three handlers set the status and
  save; an error of the database reaches the same \<open>catch\<close> block, with no status.\<close>

definition setStatus :: "status \<Rightarrow> license \<Rightarrow> world \<Rightarrow> response \<times> world" where
  "setStatus s lic w =
     (case save (lic\<lparr>status := s\<rparr>) w of
        None \<Rightarrow> (catchResponse 0 ManageFailed, w)
      | Some w' \<Rightarrow> (Response 200 OkJson, w'))"



definition resume :: "provider \<Rightarrow> nat option \<Rightarrow> world \<Rightarrow> response \<times> world" where
  "resume mp auth w =
     (case auth of
        None \<Rightarrow> (Response 401 (ErrorJson Unauthorized), w)
      | Some u \<Rightarrow>
          (case findOne (\<lambda>l. userId l = u) w of
             None \<Rightarrow> (Response 404 (ErrorJson NoSubscription), w)
           | Some lic \<Rightarrow>
               (case mpPreapprovalId lic of
                  None \<Rightarrow> (Response 404 (ErrorJson NoSubscription), w)
                | Some i \<Rightarrow>
                    if i = [] then (Response 404 (ErrorJson NoSubscription), w)
                    else
                      (case resumePreapproval mp i w of
                         (Inl st, w1) \<Rightarrow> (catchResponse st ManageFailed, w1)
                       | (Inr _, w1) \<Rightarrow> setStatus Active lic w1))))"


section \<open>Offline licensing (server.js, /public/license/validate and /refresh)\<close>

definition featuresOf :: "license \<Rightarrow> features" where
  "featuresOf l = \<lparr> whatsapp_bot = whatsapp_bot (features l), ai_cameras = ai_cameras (features l) \<rparr>"

definition signInput :: "license \<Rightarrow> string \<Rightarrow> nat \<Rightarrow> sign_input" where
  "signInput l deviceId mx =
     \<lparr> in_userId = userId l, in_licenseId = lid l, in_token = token l, in_plan = plan l,
       in_status = status l, in_deviceId = deviceId, in_maxDevices = mx,
       in_features = featuresOf l \<rparr>"

definition summary :: "license \<Rightarrow> license_summary" where
  "summary l = \<lparr> sum_id = lid l, sum_plan = plan l, sum_status = status l,
                 sum_expiresAt = expiresAt l, sum_devices = devices l \<rparr>"

text \<open>The end of /validate and /refresh: sign and answer.\<close>

definition issue :: "env \<Rightarrow> int \<Rightarrow> license \<Rightarrow> string \<Rightarrow> reason \<Rightarrow> world \<Rightarrow> response \<times> world" where
  "issue e now lic deviceId failed w =
     (case signLicenseJWS e now (signInput lic deviceId (limitForPlan (plan lic))) of
        None \<Rightarrow> (Response 500 (ErrorJson failed), w)
      | Some jws \<Rightarrow> (Response 200 (AssertionJson jws (summary lic) (DEFAULT_TTL_SEC e)), w))"

definition validate :: "env \<Rightarrow> int \<Rightarrow> string \<Rightarrow> string \<Rightarrow> world \<Rightarrow> response \<times> world" where
  "validate e now tk deviceId w =
     (if tk = [] \<or> deviceId = [] then (Response 400 (ErrorJson TokenAndDeviceRequired), w)
      else
        (case findOne (\<lambda>l. token l = Some tk) w of
           None \<Rightarrow> (Response 404 (ErrorJson LicenseNotFound), w)
         | Some lic \<Rightarrow>
             if status lic \<noteq> Active
               then (Response 403 (ErrorJson (LicenseNotActive (status lic))), w)
             else if expiresAt lic < now then (Response 403 (ErrorJson LicenseExpired), w)
             else
               let mx = limitForPlan (plan lic);
                   s = newSet (devicesOrEmpty lic)
               in if deviceId \<in> set s then issue e now lic deviceId ValidateFailed w
                  else if length s \<ge> mx
                    then (Response 403 (ErrorJson (DeviceLimitReached mx)), w)
                  else
                    let lic' = lic\<lparr>devices := Some (set_add s deviceId)\<rparr>
                    in (case save lic' w of
                          None \<Rightarrow> (Response 500 (ErrorJson ValidateFailed), w)
                        | Some w' \<Rightarrow> issue e now lic' deviceId ValidateFailed w')))"

definition refresh :: "env \<Rightarrow> int \<Rightarrow> string \<Rightarrow> string \<Rightarrow> world \<Rightarrow> response \<times> world" where
  "refresh e now tk deviceId w =
     (if tk = [] \<or> deviceId = [] then (Response 400 (ErrorJson TokenAndDeviceRequired), w)
      else
        (case findOne (\<lambda>l. token l = Some tk) w of
           None \<Rightarrow> (Response 404 (ErrorJson LicenseNotFound), w)
         | Some lic \<Rightarrow>
             if status lic \<noteq> Active
               then (Response 403 (ErrorJson (LicenseNotActive (status lic))), w)
             else if expiresAt lic < now then (Response 403 (ErrorJson LicenseExpired), w)
             else
               (case devices lic of
                  None \<Rightarrow> (Response 403 (ErrorJson DeviceNotLinked), w)
                | Some ds \<Rightarrow>
                    if deviceId \<notin> set ds then (Response 403 (ErrorJson DeviceNotLinked), w)
                    else issue e now lic deviceId RefreshFailed w)))"

section \<open>The server as a transition system\<close>






section \<open>Example data\<close>

text \<open>A single-plan license of account 7 with device A bound, the world that holds it, a
  configuration with a key pair and a process running in UTC, and a provider that accepts
  every call.\<close>

definition exampleLicense :: license where
  "exampleLicense =
     \<lparr> lid = 1, userId = 7, token = Some ''VS-k3x9qa-lx2b9c00'', plan = Single, status = Active,
       expiresAt = 2000, devices = Some [''A''], mpPreapprovalId = Some ''P1'',
       features = noFeatures \<rparr>"

definition exampleWorld :: "license \<Rightarrow> world" where
  "exampleWorld l =
     \<lparr> licenses = [l], users = [\<lparr> uid = 7, email = ''owner@example.com'' \<rparr>], mp_log = [] \<rparr>"

definition exampleEnv :: env where
  "exampleEnv =
     \<lparr> PRIVATE_PEM = ''PRIVATE KEY'', PUBLIC_PEM = ''PUBLIC KEY'',
       LICENSE_OFFLINE_TTL_SEC = None,
       publicKeyOf = (\<lambda>k. if k = ''PRIVATE KEY'' then ''PUBLIC KEY'' else []),
       LocalTZA = (\<lambda>t isUTC. 0),
       httpsBack = Some ''https://backend.example/return'',
       PRICE_SINGLE = 2999, PRICE_MULTI = 4499, MP_CURRENCY = ''ARS'' \<rparr>"

definition acceptingProvider :: provider where
  "acceptingProvider =
     \<lparr> mp_get = (\<lambda>i. Inr \<lparr> pre_id = i, pre_status = ''authorized'', external_reference = Some 7 \<rparr>),
       mp_update = (\<lambda>i s. Inr ()),
       mp_create = (\<lambda>p. Inr (''P2'', ''https://mp.example/checkout'')) \<rparr>"

text \<open>A license waiting for its first authorization, a second account with a license
  of its own, a preapproval notification, and a provider that answers every lookup with
  the same preapproval and refuses every other call.\<close>

definition pendingLicense :: license where
  "pendingLicense = exampleLicense\<lparr>status := Inactive, token := None, devices := Some [],
     mpPreapprovalId := Some ''P2''\<rparr>"

definition otherLicense :: license where
  "otherLicense = exampleLicense\<lparr>lid := 2, userId := 8, token := None,
     mpPreapprovalId := Some ''P9''\<rparr>"

definition twoLicenses :: world where
  "twoLicenses = \<lparr> licenses = [exampleLicense, otherLicense],
     users = [\<lparr> uid = 7, email = ''owner@example.com'' \<rparr>, \<lparr> uid = 8, email = ''other@example.com'' \<rparr>],
     mp_log = [] \<rparr>"

definition preapprovalEvent :: "string \<Rightarrow> webhook_request" where
  "preapprovalEvent d =
     \<lparr> body_type = Some ''subscription_preapproval'', query_type = None, body_topic = None,
       query_topic = None, body_data_id = Some d, query_data_id = None, body_id = None,
       query_id = None \<rparr>"

definition providerReturning :: "preapproval \<Rightarrow> provider" where
  "providerReturning pre =
     \<lparr> mp_get = (\<lambda>i. Inr pre), mp_update = (\<lambda>i s. Inl 500), mp_create = (\<lambda>p. Inl 500) \<rparr>"



text \<open>Account 7 with two license rows, as two concurrent /subscribe requests leave them:
  each request found no license and created one, with its own preapproval.\<close>

definition firstRow :: license where
  "firstRow = exampleLicense\<lparr>status := Inactive, token := None, devices := Some []\<rparr>"

definition secondRow :: license where
  "secondRow = firstRow\<lparr>lid := 2, mpPreapprovalId := Some ''P2''\<rparr>"

definition racedWorld :: world where
  "racedWorld = \<lparr> licenses = [firstRow, secondRow],
     users = [\<lparr> uid = 7, email = ''owner@example.com'' \<rparr>], mp_log = [] \<rparr>"

text \<open>A license of account 7 with no preapproval bound, and a provider that refuses every
  update with the status 404.\<close>

definition unboundLicense :: license where
  "unboundLicense = exampleLicense\<lparr>status := Paused, mpPreapprovalId := None\<rparr>"

definition refusingProvider :: provider where
  "refusingProvider =
     \<lparr> mp_get = (\<lambda>i. Inl 404), mp_update = (\<lambda>i s. Inl 404), mp_create = (\<lambda>p. Inl 404) \<rparr>"

text \<open>The assertion that /validate signs for device A of the example license at the time
  \<open>now\<close>.\<close>

definition exampleAssertion :: "int \<Rightarrow> jws" where
  "exampleAssertion now =
     JWS (licensePayload (signInput exampleLicense ''A'' 1) now 259200) ''PRIVATE KEY''"


section \<open>Device quota\<close>

lemma set_fold_set_add: "set (fold (\<lambda>x s. set_add s x) xs acc) = set acc \<union> set xs"
  by (induction xs arbitrary: acc) (auto simp: set_add_def)

lemma distinct_fold_set_add: "distinct acc \<Longrightarrow> distinct (fold (\<lambda>x s. set_add s x) xs acc)"
  by (induction xs arbitrary: acc) (auto simp: set_add_def)

lemma set_newSet: "set (newSet xs) = set xs"
  by (simp add: newSet_def set_fold_set_add)

lemma distinct_newSet: "distinct (newSet xs)"
  by (simp add: newSet_def distinct_fold_set_add)

lemma length_newSet: "length (newSet xs) = card (set xs)"
  using distinct_card [OF distinct_newSet, of xs] by (simp add: set_newSet)

text \<open>
  C4. The quota of plan single is 1 and that of plan multi is 3; attaching a device that is
  not bound yet to the active license of the account, when the number of bound devices
  has reached the quota of the plan, is answered 403 "device limit reached", and the
  tables are left as they were.
\<close>

theorem attach_beyond_quota_fails:
  "limitForPlan Single = 1 \<and> limitForPlan Multi = 3 \<and>
   (deviceId \<noteq> [] \<and> findOne (\<lambda>l. userId l = u \<and> status l = Active) w = Some lic \<and>
    deviceId \<notin> set (devicesOrEmpty lic) \<and>
    limitForPlan (plan lic) \<le> card (set (devicesOrEmpty lic))
    \<longrightarrow> attach (Some u) deviceId w
          = (Response 403 (ErrorJson (DeviceLimitReached (limitForPlan (plan lic)))), w))"
  by (simp add: attach_def limitForPlan_def set_newSet length_newSet Let_def)

theorem attach_beyond_quota_fails_witness:
  "''B'' \<noteq> [] \<and>
   findOne (\<lambda>l. userId l = 7 \<and> status l = Active) (exampleWorld exampleLicense) = Some exampleLicense \<and>
   ''B'' \<notin> set (devicesOrEmpty exampleLicense) \<and>
   limitForPlan (plan exampleLicense) \<le> card (set (devicesOrEmpty exampleLicense)) \<and>
   attach (Some 7) ''B'' (exampleWorld exampleLicense)
     = (Response 403 (ErrorJson (DeviceLimitReached 1)), exampleWorld exampleLicense) \<and>
   devices exampleLicense = Some [''A'']"
  using attach_beyond_quota_fails [of "''B''" 7 "exampleWorld exampleLicense" exampleLicense]
  by (simp add: findOne_def exampleWorld_def exampleLicense_def devicesOrEmpty_def limitForPlan_def)

text \<open>
  C9. Attaching a device that is already bound returns the license as it is and changes
  nothing, whether or not the quota is full: in /license/devices/attach the answer is
  200 with the unchanged license; in /public/license/validate the binding step neither
  fails nor writes, and the request goes on to sign that same license.
\<close>

theorem attach_idempotent:
  assumes "deviceId \<noteq> []"
    and "deviceId \<in> set (devicesOrEmpty lic)"
  shows "(findOne (\<lambda>l. userId l = u \<and> status l = Active) w = Some lic
           \<longrightarrow> attach (Some u) deviceId w = (Response 200 (LicenseJson lic), w))
       \<and> (tk \<noteq> [] \<and> findOne (\<lambda>l. token l = Some tk) w = Some lic
            \<and> status lic = Active \<and> now \<le> expiresAt lic
           \<longrightarrow> validate e now tk deviceId w
               = (case signLicenseJWS e now (signInput lic deviceId (limitForPlan (plan lic))) of
                    None \<Rightarrow> (Response 500 (ErrorJson ValidateFailed), w)
                  | Some jws \<Rightarrow>
                      (Response 200 (AssertionJson jws (summary lic) (DEFAULT_TTL_SEC e)), w)))"
  using assms by (simp add: attach_def validate_def issue_def set_newSet Let_def)

theorem attach_idempotent_witness:
  "''A'' \<noteq> [] \<and> ''A'' \<in> set (devicesOrEmpty exampleLicense) \<and>
   findOne (\<lambda>l. userId l = 7 \<and> status l = Active) (exampleWorld exampleLicense) = Some exampleLicense \<and>
   limitForPlan (plan exampleLicense) \<le> card (set (devicesOrEmpty exampleLicense)) \<and>
   attach (Some 7) ''A'' (exampleWorld exampleLicense)
     = (Response 200 (LicenseJson exampleLicense), exampleWorld exampleLicense) \<and>
   ''VS-k3x9qa-lx2b9c00'' \<noteq> [] \<and>
   findOne (\<lambda>l. token l = Some ''VS-k3x9qa-lx2b9c00'') (exampleWorld exampleLicense) = Some exampleLicense \<and>
   status exampleLicense = Active \<and> 1500 \<le> expiresAt exampleLicense \<and>
   validate exampleEnv 1500 ''VS-k3x9qa-lx2b9c00'' ''A'' (exampleWorld exampleLicense)
     = (Response 200 (AssertionJson (exampleAssertion 1500) (summary exampleLicense) 259200),
        exampleWorld exampleLicense)"
  using attach_idempotent [of "''A''" exampleLicense 7 "exampleWorld exampleLicense"
      "''VS-k3x9qa-lx2b9c00''" 1500 exampleEnv]
  by (simp add: findOne_def exampleWorld_def exampleLicense_def devicesOrEmpty_def
      limitForPlan_def signLicenseJWS_def exampleEnv_def DEFAULT_TTL_SEC_def issue_def
      exampleAssertion_def jwt_sign_def signInput_def validate_def newSet_def set_add_def Let_def)

text \<open>
  C10. /license/devices/attach looks for a license of the account whose status is active:
  when the account has none, the answer is 404 "no active license" and nothing changes,
  also when the account owns a license in another status with room for the device.
\<close>

theorem attach_needs_active_license:
  assumes "deviceId \<noteq> []"
    and "\<forall>l \<in> set (licenses w). userId l = u \<longrightarrow> status l \<noteq> Active"
  shows "attach (Some u) deviceId w = (Response 404 (ErrorJson NoActiveLicense), w)"
proof -
  have "findOne (\<lambda>l. userId l = u \<and> status l = Active) w = None"
    using assms(2) by (auto simp: findOne_def find_None_iff)
  with assms(1) show ?thesis by (simp add: attach_def)
qed

theorem attach_needs_active_license_witness:
  "''B'' \<noteq> [] \<and>
   map status (licenses (exampleWorld (exampleLicense\<lparr>status := Paused, devices := Some []\<rparr>)))
     = [Paused] \<and>
   card (set (devicesOrEmpty (exampleLicense\<lparr>status := Paused, devices := Some []\<rparr>)))
     < limitForPlan (plan (exampleLicense\<lparr>status := Paused, devices := Some []\<rparr>)) \<and>
   attach (Some 7) ''B'' (exampleWorld (exampleLicense\<lparr>status := Paused, devices := Some []\<rparr>))
     = (Response 404 (ErrorJson NoActiveLicense),
        exampleWorld (exampleLicense\<lparr>status := Paused, devices := Some []\<rparr>))"
  using attach_needs_active_license [of "''B''"
      "exampleWorld (exampleLicense\<lparr>status := Paused, devices := Some []\<rparr>)" 7]
  by (simp add: exampleWorld_def exampleLicense_def devicesOrEmpty_def limitForPlan_def)

section \<open>Validation\<close>

text \<open>
  A license whose expiry equals the time of the request, to the millisecond, is still
  accepted by /validate and by /refresh: the handlers reject only when
  \<open>expiresAt < now\<close>.
\<close>

theorem validate_at_expiry_instant_counterexample:
  "expiresAt exampleLicense \<le> 2000 \<and>
   validate exampleEnv 2000 ''VS-k3x9qa-lx2b9c00'' ''A'' (exampleWorld exampleLicense)
     = (Response 200 (AssertionJson (exampleAssertion 2000) (summary exampleLicense) 259200),
        exampleWorld exampleLicense) \<and>
   refresh exampleEnv 2000 ''VS-k3x9qa-lx2b9c00'' ''A'' (exampleWorld exampleLicense)
     = (Response 200 (AssertionJson (exampleAssertion 2000) (summary exampleLicense) 259200),
        exampleWorld exampleLicense)"
  by (simp add: validate_def refresh_def findOne_def exampleWorld_def exampleLicense_def
      devicesOrEmpty_def limitForPlan_def signLicenseJWS_def exampleEnv_def DEFAULT_TTL_SEC_def
      newSet_def set_add_def Let_def issue_def exampleAssertion_def jwt_sign_def signInput_def)

text \<open>
  C1 (as amended). For a validate or refresh request whose token finds a license: when the
  status is not active the answer is 403 "not active" with the status; when the status is
  active and the expiry lies before the time of the request the answer is 403 "expired";
  both whatever devices are bound, and with no change of state. A request is answered 200
  only if the status is active and the time of the request is not after the expiry.
\<close>

theorem validation_rejects_unusable_license:
  assumes "tk \<noteq> []" and "deviceId \<noteq> []"
    and "findOne (\<lambda>l. token l = Some tk) w = Some lic"
  shows "(status lic \<noteq> Active \<longrightarrow>
            validate e now tk deviceId w
              = (Response 403 (ErrorJson (LicenseNotActive (status lic))), w) \<and>
            refresh e now tk deviceId w
              = (Response 403 (ErrorJson (LicenseNotActive (status lic))), w))
       \<and> (status lic = Active \<and> expiresAt lic < now \<longrightarrow>
            validate e now tk deviceId w = (Response 403 (ErrorJson LicenseExpired), w) \<and>
            refresh e now tk deviceId w = (Response 403 (ErrorJson LicenseExpired), w))
       \<and> (fst (validate e now tk deviceId w) = Response 200 b \<longrightarrow>
            status lic = Active \<and> now \<le> expiresAt lic)
       \<and> (fst (refresh e now tk deviceId w) = Response 200 b \<longrightarrow>
            status lic = Active \<and> now \<le> expiresAt lic)"
  using assms
  by (auto simp: validate_def refresh_def issue_def Let_def split: option.splits if_splits)

theorem validation_rejects_unusable_license_witness:
  "validate exampleEnv 1500 ''VS-k3x9qa-lx2b9c00'' ''A''
       (exampleWorld (exampleLicense\<lparr>status := Paused\<rparr>))
     = (Response 403 (ErrorJson (LicenseNotActive Paused)),
        exampleWorld (exampleLicense\<lparr>status := Paused\<rparr>)) \<and>
   refresh exampleEnv 1500 ''VS-k3x9qa-lx2b9c00'' ''A''
       (exampleWorld (exampleLicense\<lparr>status := Paused\<rparr>))
     = (Response 403 (ErrorJson (LicenseNotActive Paused)),
        exampleWorld (exampleLicense\<lparr>status := Paused\<rparr>)) \<and>
   expiresAt exampleLicense < 2001 \<and>
   validate exampleEnv 2001 ''VS-k3x9qa-lx2b9c00'' ''A'' (exampleWorld exampleLicense)
     = (Response 403 (ErrorJson LicenseExpired), exampleWorld exampleLicense) \<and>
   refresh exampleEnv 2001 ''VS-k3x9qa-lx2b9c00'' ''A'' (exampleWorld exampleLicense)
     = (Response 403 (ErrorJson LicenseExpired), exampleWorld exampleLicense) \<and>
   fst (validate exampleEnv 1500 ''VS-k3x9qa-lx2b9c00'' ''A'' (exampleWorld exampleLicense))
     = Response 200 (AssertionJson (exampleAssertion 1500) (summary exampleLicense) 259200) \<and>
   fst (refresh exampleEnv 1500 ''VS-k3x9qa-lx2b9c00'' ''A'' (exampleWorld exampleLicense))
     = Response 200 (AssertionJson (exampleAssertion 1500) (summary exampleLicense) 259200) \<and>
   status exampleLicense = Active \<and> 1500 \<le> expiresAt exampleLicense"
  using validation_rejects_unusable_license [of "''VS-k3x9qa-lx2b9c00''" "''A''"
      "exampleWorld (exampleLicense\<lparr>status := Paused\<rparr>)" "exampleLicense\<lparr>status := Paused\<rparr>"
      exampleEnv 1500]
    validation_rejects_unusable_license [of "''VS-k3x9qa-lx2b9c00''" "''A''"
      "exampleWorld exampleLicense" exampleLicense exampleEnv 2001]
    validation_rejects_unusable_license [of "''VS-k3x9qa-lx2b9c00''" "''A''"
      "exampleWorld exampleLicense" exampleLicense exampleEnv 1500
      "AssertionJson (exampleAssertion 1500) (summary exampleLicense) 259200"]
  by (simp add: findOne_def exampleWorld_def exampleLicense_def validate_def refresh_def
      devicesOrEmpty_def limitForPlan_def signLicenseJWS_def exampleEnv_def DEFAULT_TTL_SEC_def
      newSet_def set_add_def Let_def issue_def exampleAssertion_def jwt_sign_def signInput_def)

section \<open>Resume\<close>

text \<open>
  /subscription/resume does not look at the status: a cancelled license whose preapproval
  the provider agrees to update becomes active.
\<close>

theorem resume_cancelled_license_counterexample:
  "status (exampleLicense\<lparr>status := Cancelled\<rparr>) = Cancelled \<and>
   resume acceptingProvider (Some 7) (exampleWorld (exampleLicense\<lparr>status := Cancelled\<rparr>))
     = (Response 200 OkJson,
        \<lparr> licenses = [exampleLicense\<lparr>status := Active\<rparr>],
          users = [\<lparr> uid = 7, email = ''owner@example.com'' \<rparr>],
          mp_log = [MpUpdate ''P1'' ''authorized''] \<rparr>)"
  by (simp add: resume_def findOne_def exampleWorld_def exampleLicense_def
      resumePreapproval_def acceptingProvider_def setStatus_def save_def written_def
      writable_def fitsColumns_def clashes_def logCall_def)

text \<open>
  C6 (as amended). A resume request acts on the first license of the account. When the
  account has no license, or the license has no preapproval bound (null or empty), the
  answer is 404 and nothing changes, and the provider is not called. Otherwise the
  provider is asked to set the preapproval to authorized. When it accepts and the
  database takes the write, the license becomes active whatever its status was, no other
  license changes, and the answer is 200; when it accepts and the database refuses the
  write, the answer is 500 and no license changes. When the provider refuses, no license
  changes, and the answer carries the status of the provider's error (500 when it has
  none; no answer is sent when that status is not between 100 and 999).
\<close>

theorem resume_sets_active_when_provider_accepts:
  "(findOne (\<lambda>l. userId l = u) w = None
      \<longrightarrow> resume mp (Some u) w = (Response 404 (ErrorJson NoSubscription), w))
   \<and> (findOne (\<lambda>l. userId l = u) w = Some lic \<and> \<not> truthy (mpPreapprovalId lic)
      \<longrightarrow> resume mp (Some u) w = (Response 404 (ErrorJson NoSubscription), w))
   \<and> (findOne (\<lambda>l. userId l = u) w = Some lic \<and> mpPreapprovalId lic = Some i \<and> i \<noteq> []
        \<and> mp_update mp i ''authorized'' = Inr () \<and> writable (lic\<lparr>status := Active\<rparr>) w
      \<longrightarrow> resume mp (Some u) w
          = (Response 200 OkJson,
             w\<lparr>licenses := map (\<lambda>r. if lid r = lid lic then lic\<lparr>status := Active\<rparr> else r)
                               (licenses w),
                mp_log := mp_log w @ [MpUpdate i ''authorized'']\<rparr>))
   \<and> (findOne (\<lambda>l. userId l = u) w = Some lic \<and> mpPreapprovalId lic = Some i \<and> i \<noteq> []
        \<and> mp_update mp i ''authorized'' = Inr () \<and> \<not> writable (lic\<lparr>status := Active\<rparr>) w
      \<longrightarrow> resume mp (Some u) w
          = (Response 500 (ErrorJson ManageFailed),
             w\<lparr>mp_log := mp_log w @ [MpUpdate i ''authorized'']\<rparr>))
   \<and> (findOne (\<lambda>l. userId l = u) w = Some lic \<and> mpPreapprovalId lic = Some i \<and> i \<noteq> []
        \<and> mp_update mp i ''authorized'' = Inl st
      \<longrightarrow> resume mp (Some u) w
          = (if st = 0 then Response 500 (ErrorJson ManageFailed)
             else if 100 \<le> st \<and> st \<le> 999 then Response st (ErrorJson ManageFailed)
             else NoResponse,
             w\<lparr>mp_log := mp_log w @ [MpUpdate i ''authorized'']\<rparr>))"
  by (auto simp: resume_def resumePreapproval_def setStatus_def save_def written_def
      writable_def logCall_def catchResponse_def truthy_def Let_def split: option.splits)

theorem resume_sets_active_when_provider_accepts_witness:
  "resume acceptingProvider (Some 9) (exampleWorld exampleLicense)
     = (Response 404 (ErrorJson NoSubscription), exampleWorld exampleLicense)
   \<and> status unboundLicense = Paused
   \<and> resume acceptingProvider (Some 7) (exampleWorld unboundLicense)
     = (Response 404 (ErrorJson NoSubscription), exampleWorld unboundLicense)
   \<and> resume acceptingProvider (Some 7) (exampleWorld (exampleLicense\<lparr>status := Paused\<rparr>))
     = (Response 200 OkJson,
        \<lparr> licenses = [exampleLicense\<lparr>status := Active\<rparr>],
          users = [\<lparr> uid = 7, email = ''owner@example.com'' \<rparr>],
          mp_log = [MpUpdate ''P1'' ''authorized''] \<rparr>)
   \<and> resume refusingProvider (Some 7) (exampleWorld (exampleLicense\<lparr>status := Paused\<rparr>))
     = (Response 404 (ErrorJson ManageFailed),
        \<lparr> licenses = [exampleLicense\<lparr>status := Paused\<rparr>],
          users = [\<lparr> uid = 7, email = ''owner@example.com'' \<rparr>],
          mp_log = [MpUpdate ''P1'' ''authorized''] \<rparr>)"
  using resume_sets_active_when_provider_accepts [of 9 "exampleWorld exampleLicense"
      acceptingProvider]
    resume_sets_active_when_provider_accepts [of 7 "exampleWorld unboundLicense"
      acceptingProvider unboundLicense]
    resume_sets_active_when_provider_accepts [of 7
      "exampleWorld (exampleLicense\<lparr>status := Paused\<rparr>)" acceptingProvider
      "exampleLicense\<lparr>status := Paused\<rparr>" "''P1''"]
    resume_sets_active_when_provider_accepts [of 7
      "exampleWorld (exampleLicense\<lparr>status := Paused\<rparr>)" refusingProvider
      "exampleLicense\<lparr>status := Paused\<rparr>" "''P1''" 404]
  by (simp add: findOne_def exampleWorld_def exampleLicense_def unboundLicense_def
      acceptingProvider_def refusingProvider_def truthy_def writable_def fitsColumns_def
      clashes_def)

section \<open>One month later\<close>

text \<open>In local time, \<open>setMonth(getMonth() + 1)\<close> adds the length of the current month
  and \<open>setDate(getDate() + 1)\<close> one day.\<close>

lemma yearFrom_sound:
  "yearFrom y d = (y', r) \<Longrightarrow>
     y \<le> y' \<and> r < DaysInYear y' \<and> d = sum_list (map DaysInYear [y..<y']) + r"
proof (induction y d rule: yearFrom.induct)
  case (1 y d)
  show ?case
  proof (cases "d < DaysInYear y")
    case True
    with "1.prems" show ?thesis by simp
  next
    case False
    with "1.prems" have rec: "yearFrom (Suc y) (d - DaysInYear y) = (y', r)" by simp
    from "1.IH" [OF False rec]
    have ih: "Suc y \<le> y'" "r < DaysInYear y'"
      "d - DaysInYear y = sum_list (map DaysInYear [Suc y..<y']) + r" by simp_all
    from ih(1) have "[y..<y'] = y # [Suc y..<y']" by (simp add: upt_conv_Cons)
    with ih False show ?thesis by simp
  qed
qed

lemma monthFrom_sound:
  "monthFrom y m d = (m', r) \<Longrightarrow> m \<le> 11 \<Longrightarrow>
     m \<le> m' \<and> m' \<le> 11 \<and> d = sum_list (map (DaysInMonth y) [m..<m']) + r"
proof (induction y m d rule: monthFrom.induct)
  case (1 y m d)
  show ?case
  proof (cases "11 \<le> m \<or> d < DaysInMonth y m")
    case True
    with "1.prems" show ?thesis by auto
  next
    case False
    with "1.prems" have rec: "monthFrom y (Suc m) (d - DaysInMonth y m) = (m', r)" by simp
    from False have m: "Suc m \<le> 11" by simp
    from "1.IH" [OF False rec m]
    have ih: "Suc m \<le> m'" "m' \<le> 11"
      "d - DaysInMonth y m = sum_list (map (DaysInMonth y) [Suc m..<m']) + r" by simp_all
    from ih(1) have "[m..<m'] = m # [Suc m..<m']" by (simp add: upt_conv_Cons)
    with ih False show ?thesis by simp
  qed
qed



lemma upt_0_11: "[0..<11] = [0, 1, 2, 3, 4, 5, 6, 7, 8, 9, 10::nat]"
  by (simp add: upt_conv_Cons)

lemma DayFromMonth_11: "DayFromMonth y 11 + 31 = DaysInYear y"
  by (simp add: DayFromMonth_def DaysInMonth_def DaysInYear_def upt_0_11)


lemma Day_decomposed:
  "Day t = DayFromYear (YearFromTime t) + DayFromMonth (YearFromTime t) (MonthFromTime t)
           + (DateFromTime t - 1)
   \<and> 1970 \<le> YearFromTime t \<and> MonthFromTime t \<le> 11 \<and> 1 \<le> DateFromTime t"
proof -
  obtain y r where yr: "yearFrom 1970 (Day t) = (y, r)" by (cases "yearFrom 1970 (Day t)")
  obtain m q where mq: "monthFrom y 0 r = (m, q)" by (cases "monthFrom y 0 r")
  from yearFrom_sound [OF yr] have y: "1970 \<le> y" "Day t = DayFromYear y + r"
    by (simp_all add: DayFromYear_def)
  from monthFrom_sound [OF mq] have m: "m \<le> 11" "r = DayFromMonth y m + q"
    by (simp_all add: DayFromMonth_def)
  have 1: "YearFromTime t = y" using yr by (simp only: YearFromTime_def fst_conv)
  have 2: "DayWithinYear t = r" using yr by (simp only: DayWithinYear_def snd_conv)
  have 3: "MonthFromTime t = m" using mq by (simp only: MonthFromTime_def 1 2 fst_conv)
  have 4: "DateFromTime t = q + 1" using mq by (simp only: DateFromTime_def 1 2 snd_conv)
  from y m show ?thesis unfolding 1 3 4 by simp
qed


lemma DayFromYear_Suc: "1970 \<le> y \<Longrightarrow> DayFromYear (Suc y) = DayFromYear y + DaysInYear y"
  by (simp add: DayFromYear_def)

lemma DayFromMonth_Suc: "DayFromMonth y (Suc m) = DayFromMonth y m + DaysInMonth y m"
  by (simp add: DayFromMonth_def)

lemma DayFromMonth_0: "DayFromMonth y 0 = 0"
  by (simp add: DayFromMonth_def)

lemma MakeDay_next_month:
  assumes "1970 \<le> y" and "m \<le> 11" and "1 \<le> dt"
  shows "MakeDay y (m + 1) dt = DayFromYear y + DayFromMonth y m + (dt - 1) + DaysInMonth y m"
proof (cases "m = 11")
  case True
  have dec: "DaysInMonth y 11 = 31" by (simp add: DaysInMonth_def)
  have "MakeDay y 12 dt = DayFromYear (Suc y) + DayFromMonth (Suc y) 0 + dt - 1"
    by (simp add: MakeDay_def Let_def)
  also have "\<dots> = DayFromYear y + DaysInYear y + (dt - 1)"
    using assms(1,3) by (simp add: DayFromYear_Suc DayFromMonth_0)
  also have "\<dots> = DayFromYear y + DayFromMonth y 11 + (dt - 1) + DaysInMonth y 11"
    using DayFromMonth_11 [of y] by (simp add: dec)
  finally show ?thesis using True by simp
next
  case False
  with assms(2) have lt: "Suc m < 12" by simp
  then have "MakeDay y (Suc m) dt = DayFromYear y + DayFromMonth y (Suc m) + dt - 1"
    by (simp add: MakeDay_def Let_def)
  with assms(3) show ?thesis by (simp add: DayFromMonth_Suc)
qed


lemma Day_inverse: "0 \<le> t \<Longrightarrow> int (Day t) * msPerDay + TimeWithinDay t = t"
  by (simp add: Day_def TimeWithinDay_def msPerDay_def pos_imp_zdiv_nonneg_iff)

lemma local_next_month:
  assumes "0 \<le> t"
  shows "MakeDate (MakeDay (YearFromTime t) (MonthFromTime t + 1) (DateFromTime t)) (TimeWithinDay t)
         = t + int (DaysInMonth (YearFromTime t) (MonthFromTime t)) * msPerDay"
proof -
  from Day_decomposed [of t]
  have d: "Day t = DayFromYear (YearFromTime t) + DayFromMonth (YearFromTime t) (MonthFromTime t)
                   + (DateFromTime t - 1)"
    and b: "1970 \<le> YearFromTime t" "MonthFromTime t \<le> 11" "1 \<le> DateFromTime t" by simp_all
  have "MakeDay (YearFromTime t) (MonthFromTime t + 1) (DateFromTime t)
        = Day t + DaysInMonth (YearFromTime t) (MonthFromTime t)"
    using MakeDay_next_month [OF b] d by simp
  then have "MakeDate (MakeDay (YearFromTime t) (MonthFromTime t + 1) (DateFromTime t)) (TimeWithinDay t)
        = int (Day t + DaysInMonth (YearFromTime t) (MonthFromTime t)) * msPerDay + TimeWithinDay t"
    by (simp only: MakeDate_def)
  also have "\<dots> = (int (Day t) * msPerDay + TimeWithinDay t)
        + int (DaysInMonth (YearFromTime t) (MonthFromTime t)) * msPerDay"
    by (simp add: algebra_simps)
  finally show ?thesis by (simp only: Day_inverse [OF assms])
qed

lemma setMonth_next:
  assumes "0 \<le> LocalTime e t"
  shows "setMonth e t (getMonth e t + 1)
         = UTC e (LocalTime e t
             + int (DaysInMonth (YearFromTime (LocalTime e t)) (MonthFromTime (LocalTime e t)))
               * msPerDay)"
  by (simp only: setMonth_def getMonth_def local_next_month [OF assms])

lemma DaysInMonth_bounds: "28 \<le> DaysInMonth y m \<and> DaysInMonth y m \<le> 31"
  by (simp add: DaysInMonth_def)

text \<open>When the offset of the time zone never differs by more than \<open>k\<close> milliseconds
  between two moments (0 for a zone without daylight saving, one hour with it), the new
  expiry lies 28 to 31 days after the time of the request, give or take \<open>k\<close>.\<close>

lemma one_month_later:
  assumes "0 \<le> LocalTime e t"
    and "\<forall>a b. \<bar>LocalTZA e a True - LocalTZA e b False\<bar> \<le> k"
  shows "t + 28 * msPerDay - k \<le> setMonth e t (getMonth e t + 1)
       \<and> setMonth e t (getMonth e t + 1) \<le> t + 31 * msPerDay + k"
proof -
  let ?n = "int (DaysInMonth (YearFromTime (LocalTime e t)) (MonthFromTime (LocalTime e t)))"
  let ?l = "LocalTime e t + ?n * msPerDay"
  have m: "(0::int) \<le> msPerDay" by (simp add: msPerDay_def)
  have n: "28 \<le> ?n" "?n \<le> 31"
    using DaysInMonth_bounds [of "YearFromTime (LocalTime e t)" "MonthFromTime (LocalTime e t)"]
    by simp_all
  have lo: "28 * msPerDay \<le> ?n * msPerDay" using n(1) m by (rule mult_right_mono)
  have hi: "?n * msPerDay \<le> 31 * msPerDay" using n(2) m by (rule mult_right_mono)
  have "\<bar>LocalTZA e t True - LocalTZA e ?l False\<bar> \<le> k" using assms(2) by blast
  then have off: "- k \<le> LocalTZA e t True - LocalTZA e ?l False"
    "LocalTZA e t True - LocalTZA e ?l False \<le> k" by simp_all
  have "setMonth e t (getMonth e t + 1)
        = t + ?n * msPerDay + (LocalTZA e t True - LocalTZA e ?l False)"
    unfolding setMonth_next [OF assms(1)] by (simp add: UTC_def LocalTime_def)
  with lo hi off show ?thesis by simp
qed

lemma setDate_next:
  assumes "0 \<le> LocalTime e t"
  shows "setDate e t (getDate e t + 1) = UTC e (LocalTime e t + msPerDay)"
proof -
  let ?t = "LocalTime e t"
  from Day_decomposed [of ?t]
  have d: "Day ?t = DayFromYear (YearFromTime ?t) + DayFromMonth (YearFromTime ?t) (MonthFromTime ?t)
                   + (DateFromTime ?t - 1)"
    and b: "MonthFromTime ?t \<le> 11" "1 \<le> DateFromTime ?t" by simp_all
  have "MakeDay (YearFromTime ?t) (MonthFromTime ?t) (DateFromTime ?t + 1) = Day ?t + 1"
    using b d by (simp add: MakeDay_def Let_def)
  then have "MakeDate (MakeDay (YearFromTime ?t) (MonthFromTime ?t) (DateFromTime ?t + 1))
        (TimeWithinDay ?t) = int (Day ?t + 1) * msPerDay + TimeWithinDay ?t"
    by (simp only: MakeDate_def)
  also have "\<dots> = (int (Day ?t) * msPerDay + TimeWithinDay ?t) + msPerDay"
    by (simp add: algebra_simps)
  finally show ?thesis by (simp only: setDate_def getDate_def Day_inverse [OF assms])
qed

section \<open>External events\<close>

lemma licenses_logCall: "licenses (logCall c w) = licenses w"
  by (simp add: logCall_def)

lemma users_logCall: "users (logCall c w) = users w"
  by (simp add: logCall_def)

lemma findOne_logCall: "findOne P (logCall c w) = findOne P w"
  by (simp add: findOne_def licenses_logCall)

lemma resolveLicense_logCall: "resolveLicense pre (logCall c w) = resolveLicense pre w"
  by (simp add: resolveLicense_def findOne_logCall Let_def split: option.splits)

lemma example_event_type: "sublist ''preapproval'' ''subscription_preapproval''"
  by code_simp

lemma first_truthy_Some: "first_truthy vs = Some d \<Longrightarrow> d \<noteq> []"
  by (induction vs) (auto simp: truthy_def split: if_splits option.splits)

lemma users_written: "users (written l w) = users w"
  by (simp add: written_def)

lemma licenses_written:
  "licenses (written l w) = map (\<lambda>r. if lid r = lid l then l else r) (licenses w)"
  by (simp add: written_def)

lemma writable_same_licenses: "licenses w' = licenses w \<Longrightarrow> writable l w' = writable l w"
  by (simp add: writable_def)

lemma licenses_cancelOld: "licenses (cancelOld mp pre lic w) = licenses w"
  by (simp add: cancelOld_def cancelPreapproval_def licenses_logCall split: option.splits)

lemma users_cancelOld: "users (cancelOld mp pre lic w) = users w"
  by (simp add: cancelOld_def cancelPreapproval_def users_logCall split: option.splits)

lemma findOne_in_set: "findOne P w = Some l \<Longrightarrow> l \<in> set (licenses w) \<and> P l"
  by (auto simp: findOne_def find_Some_iff)

lemma resolveLicense_in_set: "resolveLicense pre w = Some l \<Longrightarrow> l \<in> set (licenses w)"
  by (auto simp: resolveLicense_def Let_def dest: findOne_in_set split: option.splits)

lemma find_after_save:
  "l \<in> set xs \<Longrightarrow> lid l' = lid l \<Longrightarrow>
     find (\<lambda>x. lid x = lid l) (map (\<lambda>r. if lid r = lid l' then l' else r) xs) = Some l'"
  by (induction xs) auto

lemma licenses_saveOrLog:
  "licenses (saveOrLog l w)
     = (if writable l w then map (\<lambda>r. if lid r = lid l then l else r) (licenses w)
        else licenses w)"
  by (simp add: saveOrLog_def save_def licenses_written)

lemma users_saveOrLog: "users (saveOrLog l w) = users w"
  by (simp add: saveOrLog_def save_def users_written)

lemma licenses_activate:
  "licenses (snd (activate e mp now rnd pre lic w))
     = (if writable (activated e now rnd pre lic) w
        then map (\<lambda>r. if lid r = lid (activated e now rnd pre lic)
                        then activated e now rnd pre lic else r) (licenses w)
        else licenses w)"
  by (simp add: activate_def Let_def save_def licenses_written licenses_cancelOld
      writable_same_licenses [OF licenses_cancelOld])

lemma users_activate: "users (snd (activate e mp now rnd pre lic w)) = users w"
  by (simp add: activate_def Let_def save_def users_written users_cancelOld)

lemma webhook_event:
  assumes "first_truthy [body_type r, query_type r, body_topic r, query_topic r] = Some t"
    and "sublist ''preapproval'' t"
    and "first_truthy [body_data_id r, query_data_id r, body_id r, query_id r] = Some d"
    and "mp_get mp d = Inr pre"
  shows "snd (webhook e mp now rnd r w)
         = (case resolveLicense pre w of
              None \<Rightarrow> logCall (MpGet d) w
            | Some lic \<Rightarrow>
                if isAuthorized pre then snd (activate e mp now rnd pre lic (logCall (MpGet d) w))
                else if pre_status pre = ''paused''
                  then saveOrLog (lic\<lparr>status := Paused\<rparr>) (logCall (MpGet d) w)
                else if pre_status pre = ''cancelled''
                  then saveOrLog (lic\<lparr>status := Cancelled\<rparr>) (logCall (MpGet d) w)
                else logCall (MpGet d) w)"
proof -
  from assms(3) have "d \<noteq> []" by (rule first_truthy_Some)
  with assms show ?thesis
    by (simp add: webhook_def webhookProcess_def getPreapprovalById_def resolveLicense_logCall
        Let_def)
qed

text \<open>
  C7. A preapproval notification is answered 200 whatever happens next. The event is then
  applied to one license: the first license of the account that the external reference
  of the preapproval names, when the reference names an account that has one; only
  otherwise the first license whose stored preapproval id is the id of the event. To that
  license the handler applies the status of the event (paused, cancelled, or the
  activation for authorized and active; a write that the database refuses leaves it as it
  was), and to no other license. When neither lookup finds a license, no license and no
  user changes.
\<close>

theorem webhook_resolves_by_reference_then_by_subscription:
  assumes "first_truthy [body_type r, query_type r, body_topic r, query_topic r] = Some t"
    and "sublist ''preapproval'' t"
    and "first_truthy [body_data_id r, query_data_id r, body_id r, query_id r] = Some d"
    and "mp_get mp d = Inr pre"
    and "target =
           (case (case external_reference pre of
                    None \<Rightarrow> None
                  | Some u \<Rightarrow> if u = 0 then None else find (\<lambda>l. userId l = u) (licenses w)) of
              Some l \<Rightarrow> Some l
            | None \<Rightarrow> find (\<lambda>l. mpPreapprovalId l = Some (pre_id pre)) (licenses w))"
  shows "fst (webhook e mp now rnd r w) = Response 200 OkText
       \<and> users (snd (webhook e mp now rnd r w)) = users w
       \<and> (target = None \<longrightarrow> licenses (snd (webhook e mp now rnd r w)) = licenses w)
       \<and> (\<forall>lic. target = Some lic \<longrightarrow>
            licenses (snd (webhook e mp now rnd r w))
              = (let applied = (\<lambda>lic'. if writable lic' w
                                       then map (\<lambda>x. if lid x = lid lic then lic' else x)
                                              (licenses w)
                                       else licenses w)
                 in if isAuthorized pre then applied (activated e now rnd pre lic)
                    else if pre_status pre = ''paused'' then applied (lic\<lparr>status := Paused\<rparr>)
                    else if pre_status pre = ''cancelled''
                      then applied (lic\<lparr>status := Cancelled\<rparr>)
                    else licenses w))"
proof -
  have tgt: "target = resolveLicense pre w"
    unfolding assms(5)
    by (simp add: resolveLicense_def referencedUser_def findOne_def Let_def split: option.splits)
  note ev = webhook_event [OF assms(1-4), of e now rnd w]
  have p1: "fst (webhook e mp now rnd r w) = Response 200 OkText"
    by (simp add: webhook_def Let_def)
  have p2: "users (snd (webhook e mp now rnd r w)) = users w"
    unfolding ev
    by (simp add: users_logCall users_saveOrLog users_activate split: option.splits)
  have p3: "target = None \<longrightarrow> licenses (snd (webhook e mp now rnd r w)) = licenses w"
    unfolding ev tgt by (simp add: licenses_logCall)
  have p4: "\<forall>lic. target = Some lic \<longrightarrow>
            licenses (snd (webhook e mp now rnd r w))
              = (let applied = (\<lambda>lic'. if writable lic' w
                                       then map (\<lambda>x. if lid x = lid lic then lic' else x)
                                              (licenses w)
                                       else licenses w)
                 in if isAuthorized pre then applied (activated e now rnd pre lic)
                    else if pre_status pre = ''paused'' then applied (lic\<lparr>status := Paused\<rparr>)
                    else if pre_status pre = ''cancelled''
                      then applied (lic\<lparr>status := Cancelled\<rparr>)
                    else licenses w)"
  proof (intro allI impI)
    fix lic
    assume "target = Some lic"
    then have r: "resolveLicense pre w = Some lic" by (simp add: tgt)
    have lidA: "lid (activated e now rnd pre lic) = lid lic"
      by (simp add: activated_def Let_def)
    have wl: "writable l (logCall (MpGet d) w) = writable l w" for l
      by (rule writable_same_licenses) (rule licenses_logCall)
    show "licenses (snd (webhook e mp now rnd r w))
              = (let applied = (\<lambda>lic'. if writable lic' w
                                       then map (\<lambda>x. if lid x = lid lic then lic' else x)
                                              (licenses w)
                                       else licenses w)
                 in if isAuthorized pre then applied (activated e now rnd pre lic)
                    else if pre_status pre = ''paused'' then applied (lic\<lparr>status := Paused\<rparr>)
                    else if pre_status pre = ''cancelled''
                      then applied (lic\<lparr>status := Cancelled\<rparr>)
                    else licenses w)"
      unfolding ev r
      by (simp add: Let_def licenses_logCall licenses_saveOrLog licenses_activate lidA wl)
  qed
  show ?thesis by (rule conjI [OF p1 conjI [OF p2 conjI [OF p3 p4]]])
qed

lemma preapprovalEvent_type:
  "first_truthy [body_type (preapprovalEvent d), query_type (preapprovalEvent d),
      body_topic (preapprovalEvent d), query_topic (preapprovalEvent d)]
     = Some ''subscription_preapproval''"
  by (simp add: preapprovalEvent_def truthy_def)

lemma preapprovalEvent_id:
  "d \<noteq> [] \<Longrightarrow>
   first_truthy [body_data_id (preapprovalEvent d), query_data_id (preapprovalEvent d),
      body_id (preapprovalEvent d), query_id (preapprovalEvent d)] = Some d"
  by (simp add: preapprovalEvent_def truthy_def)

theorem webhook_resolves_by_reference_then_by_subscription_witness:
  "webhook exampleEnv
       (providerReturning \<lparr> pre_id = ''P9'', pre_status = ''paused'', external_reference = Some 7 \<rparr>)
       5000 ''k3x9qa'' (preapprovalEvent ''P9'') twoLicenses
     = (Response 200 OkText,
        twoLicenses\<lparr>licenses := [exampleLicense\<lparr>status := Paused\<rparr>, otherLicense],
                    mp_log := [MpGet ''P9'']\<rparr>)
   \<and> mpPreapprovalId otherLicense = Some ''P9''
   \<and> webhook exampleEnv
       (providerReturning \<lparr> pre_id = ''P9'', pre_status = ''cancelled'', external_reference = Some 99 \<rparr>)
       5000 ''k3x9qa'' (preapprovalEvent ''P9'') twoLicenses
     = (Response 200 OkText,
        twoLicenses\<lparr>licenses := [exampleLicense, otherLicense\<lparr>status := Cancelled\<rparr>],
                    mp_log := [MpGet ''P9'']\<rparr>)
   \<and> webhook exampleEnv
       (providerReturning \<lparr> pre_id = ''P5'', pre_status = ''paused'', external_reference = Some 99 \<rparr>)
       5000 ''k3x9qa'' (preapprovalEvent ''P5'') twoLicenses
     = (Response 200 OkText, twoLicenses\<lparr>mp_log := [MpGet ''P5'']\<rparr>)"
proof -
  let ?a = "\<lparr> pre_id = ''P9'', pre_status = ''paused'', external_reference = Some 7 \<rparr>"
  let ?b = "\<lparr> pre_id = ''P9'', pre_status = ''cancelled'', external_reference = Some 99 \<rparr>"
  let ?c = "\<lparr> pre_id = ''P5'', pre_status = ''paused'', external_reference = Some 99 \<rparr>"
  have id9: "first_truthy [body_data_id (preapprovalEvent ''P9''),
      query_data_id (preapprovalEvent ''P9''), body_id (preapprovalEvent ''P9''),
      query_id (preapprovalEvent ''P9'')] = Some ''P9''"
    by (rule preapprovalEvent_id) simp
  have id5: "first_truthy [body_data_id (preapprovalEvent ''P5''),
      query_data_id (preapprovalEvent ''P5''), body_id (preapprovalEvent ''P5''),
      query_id (preapprovalEvent ''P5'')] = Some ''P5''"
    by (rule preapprovalEvent_id) simp
  have get: "mp_get (providerReturning p) i = Inr p" for p i
    by (simp add: providerReturning_def)
  have ta: "Some exampleLicense =
           (case (case external_reference ?a of
                    None \<Rightarrow> None
                  | Some u \<Rightarrow> if u = 0 then None
                             else find (\<lambda>l. userId l = u) (licenses twoLicenses)) of
              Some l \<Rightarrow> Some l
            | None \<Rightarrow> find (\<lambda>l. mpPreapprovalId l = Some (pre_id ?a)) (licenses twoLicenses))"
    by (simp add: twoLicenses_def exampleLicense_def)
  have tb: "Some otherLicense =
           (case (case external_reference ?b of
                    None \<Rightarrow> None
                  | Some u \<Rightarrow> if u = 0 then None
                             else find (\<lambda>l. userId l = u) (licenses twoLicenses)) of
              Some l \<Rightarrow> Some l
            | None \<Rightarrow> find (\<lambda>l. mpPreapprovalId l = Some (pre_id ?b)) (licenses twoLicenses))"
    by (simp add: twoLicenses_def exampleLicense_def otherLicense_def)
  have tc: "None =
           (case (case external_reference ?c of
                    None \<Rightarrow> None
                  | Some u \<Rightarrow> if u = 0 then None
                             else find (\<lambda>l. userId l = u) (licenses twoLicenses)) of
              Some l \<Rightarrow> Some l
            | None \<Rightarrow> find (\<lambda>l. mpPreapprovalId l = Some (pre_id ?c)) (licenses twoLicenses))"
    by (simp add: twoLicenses_def exampleLicense_def otherLicense_def)
  from webhook_resolves_by_reference_then_by_subscription
         [OF preapprovalEvent_type example_event_type id9 get ta, of exampleEnv 5000 "''k3x9qa''"]
       webhook_resolves_by_reference_then_by_subscription
         [OF preapprovalEvent_type example_event_type id9 get tb, of exampleEnv 5000 "''k3x9qa''"]
       webhook_resolves_by_reference_then_by_subscription
         [OF preapprovalEvent_type example_event_type id5 get tc, of exampleEnv 5000 "''k3x9qa''"]
  show ?thesis
    by (simp add: webhook_def webhookProcess_def preapprovalEvent_def truthy_def
        example_event_type getPreapprovalById_def providerReturning_def logCall_def
        resolveLicense_def referencedUser_def findOne_def twoLicenses_def isAuthorized_def
        saveOrLog_def save_def written_def writable_def fitsColumns_def clashes_def
        exampleLicense_def otherLicense_def Let_def)
qed

lemma generateLicenseToken_nonempty: "generateLicenseToken rnd now \<noteq> []"
  by (simp add: generateLicenseToken_def)

lemma length_toString36: "0 < k \<Longrightarrow> n < 36 ^ k \<Longrightarrow> length (toString36 n) \<le> k"
proof (induction k arbitrary: n)
  case 0
  then show ?case by simp
next
  case (Suc k)
  show ?case
  proof (cases "n < 36")
    case True
    then have "toString36 n = [digit36 n]" by (subst toString36.simps) simp
    then show ?thesis by simp
  next
    case False
    then have k: "0 < k" using Suc.prems(2) by (cases k) simp_all
    from Suc.prems(2) have "n div 36 < 36 ^ k"
      by (simp add: less_mult_imp_div_less mult.commute)
    from Suc.IH [OF k this] have "length (toString36 (n div 36)) \<le> k" .
    moreover from False have "toString36 n = toString36 (n div 36) @ [digit36 (n mod 36)]"
      by (subst toString36.simps) simp
    ultimately show ?thesis by simp
  qed
qed

lemma example_token_fits: "length (generateLicenseToken ''k3x9qa'' 1762128000000) \<le> 120"
proof -
  have "length (toString36 (nat 1762128000000)) \<le> 9"
    by (rule length_toString36) simp_all
  then show ?thesis by (simp add: generateLicenseToken_def)
qed

lemma activated_fields:
  "status (activated e now rnd pre lic) = Active
   \<and> mpPreapprovalId (activated e now rnd pre lic) = Some (pre_id pre)
   \<and> expiresAt (activated e now rnd pre lic) = setMonth e now (getMonth e now + 1)
   \<and> devices (activated e now rnd pre lic) = devices lic
   \<and> lid (activated e now rnd pre lic) = lid lic
   \<and> userId (activated e now rnd pre lic) = userId lic
   \<and> plan (activated e now rnd pre lic) = plan lic"
  by (simp add: activated_def Let_def)

lemma activated_token:
  "token (activated e now rnd pre lic)
     = (if truthy (token lic) then token lic else Some (generateLicenseToken rnd now))"
  by (simp add: activated_def Let_def)

lemma truthy_activated: "truthy (token (activated e now rnd pre lic))"
  by (simp add: activated_token) (simp add: truthy_def generateLicenseToken_nonempty)

lemma webhook_authorized:
  assumes "first_truthy [body_type r, query_type r, body_topic r, query_topic r] = Some t"
    and "sublist ''preapproval'' t"
    and "first_truthy [body_data_id r, query_data_id r, body_id r, query_id r] = Some d"
    and "mp_get mp d = Inr pre" and "isAuthorized pre"
    and "resolveLicense pre w = Some lic"
  shows "licenses (snd (webhook e mp now rnd r w))
         = (if writable (activated e now rnd pre lic) w
            then map (\<lambda>x. if lid x = lid lic then activated e now rnd pre lic else x) (licenses w)
            else licenses w)"
  unfolding webhook_event [OF assms(1-4)]
  using assms(5,6)
  by (simp add: licenses_activate activated_fields licenses_logCall
      writable_same_licenses [OF licenses_logCall])

text \<open>
  The database refuses the activation when another license already holds the preapproval
  of the event. Here account 7 has two rows: the event for preapproval P2 resolves to the
  first one, whose old preapproval P1 is cancelled at the provider, and the save of the
  new binding is refused because the second row holds P2: the first row stays inactive.
\<close>

theorem authorized_event_refused_counterexample:
  "status firstRow = Inactive
   \<and> webhook exampleEnv acceptingProvider 1762128000000 ''k3x9qa'' (preapprovalEvent ''P2'')
       racedWorld
     = (Response 200 OkText,
        racedWorld\<lparr>mp_log := [MpGet ''P2'', MpUpdate ''P1'' ''cancelled'']\<rparr>)"
  by (simp add: webhook_def webhookProcess_def preapprovalEvent_def truthy_def
      example_event_type getPreapprovalById_def acceptingProvider_def logCall_def
      resolveLicense_def referencedUser_def findOne_def racedWorld_def isAuthorized_def
      activate_def activated_fields cancelOld_def cancelPreapproval_def save_def writable_def
      clashes_def firstRow_def secondRow_def exampleLicense_def Let_def)

text \<open>
  C3 (as amended). A preapproval notification whose preapproval the provider reports as
  authorized or active, and that resolves to a license in whatever state, rewrites that
  license and no other, provided the database takes the write (no other license holds the
  preapproval id of the event or the new token, and the values fit their columns): its
  status becomes active, its preapproval id the one of the event, it has a non-empty
  token (the one it had, if it had one), its expiry is one calendar month after the time
  of the request in the local time of the process, which is 28 to 31 days later give or
  take the change \<open>k\<close> of the offset of the time zone, and its devices, owner and plan
  are unchanged. When the database refuses the write, no license changes.
\<close>

theorem authorized_event_activates:
  assumes "first_truthy [body_type r, query_type r, body_topic r, query_topic r] = Some t"
    and "sublist ''preapproval'' t"
    and "first_truthy [body_data_id r, query_data_id r, body_id r, query_id r] = Some d"
    and "mp_get mp d = Inr pre" and "isAuthorized pre"
    and "resolveLicense pre w = Some lic"
    and "0 \<le> LocalTime e now"
    and "\<forall>a b. \<bar>LocalTZA e a True - LocalTZA e b False\<bar> \<le> k"
  shows "(writable (activated e now rnd pre lic) w \<longrightarrow>
          (\<exists>lic'.
             licenses (snd (webhook e mp now rnd r w))
               = map (\<lambda>x. if lid x = lid lic then lic' else x) (licenses w)
           \<and> find (\<lambda>x. lid x = lid lic) (licenses (snd (webhook e mp now rnd r w))) = Some lic'
           \<and> status lic' = Active
           \<and> mpPreapprovalId lic' = Some (pre_id pre)
           \<and> truthy (token lic')
           \<and> (truthy (token lic) \<longrightarrow> token lic' = token lic)
           \<and> now + 28 * msPerDay - k \<le> expiresAt lic'
           \<and> expiresAt lic' \<le> now + 31 * msPerDay + k
           \<and> devices lic' = devices lic
           \<and> lid lic' = lid lic \<and> userId lic' = userId lic \<and> plan lic' = plan lic))
       \<and> (\<not> writable (activated e now rnd pre lic) w \<longrightarrow>
            licenses (snd (webhook e mp now rnd r w)) = licenses w)"
proof (intro conjI impI)
  let ?l = "activated e now rnd pre lic"
  assume wr: "writable ?l w"
  have w': "licenses (snd (webhook e mp now rnd r w))
             = map (\<lambda>x. if lid x = lid lic then ?l else x) (licenses w)"
    using wr by (simp add: webhook_authorized [OF assms(1-6)])
  have mem: "lic \<in> set (licenses w)" using assms(6) by (rule resolveLicense_in_set)
  have f: "find (\<lambda>x. lid x = lid lic) (licenses (snd (webhook e mp now rnd r w))) = Some ?l"
    unfolding w' using find_after_save [OF mem, of ?l] by (simp add: activated_fields)
  have x: "now + 28 * msPerDay - k \<le> expiresAt ?l \<and> expiresAt ?l \<le> now + 31 * msPerDay + k"
    using one_month_later [OF assms(7,8)] by (simp add: activated_fields)
  have t: "truthy (token lic) \<longrightarrow> token ?l = token lic" by (simp add: activated_token)
  from w' f x t truthy_activated [of e now rnd pre lic] activated_fields [of e now rnd pre lic]
  show "\<exists>lic'.
             licenses (snd (webhook e mp now rnd r w))
               = map (\<lambda>x. if lid x = lid lic then lic' else x) (licenses w)
           \<and> find (\<lambda>x. lid x = lid lic) (licenses (snd (webhook e mp now rnd r w))) = Some lic'
           \<and> status lic' = Active
           \<and> mpPreapprovalId lic' = Some (pre_id pre)
           \<and> truthy (token lic')
           \<and> (truthy (token lic) \<longrightarrow> token lic' = token lic)
           \<and> now + 28 * msPerDay - k \<le> expiresAt lic'
           \<and> expiresAt lic' \<le> now + 31 * msPerDay + k
           \<and> devices lic' = devices lic
           \<and> lid lic' = lid lic \<and> userId lic' = userId lic \<and> plan lic' = plan lic"
    by blast
next
  assume "\<not> writable (activated e now rnd pre lic) w"
  then show "licenses (snd (webhook e mp now rnd r w)) = licenses w"
    by (simp add: webhook_authorized [OF assms(1-6)])
qed

theorem authorized_event_activates_witness:
  "\<exists>l. licenses (snd (webhook exampleEnv acceptingProvider 1762128000000 ''k3x9qa''
            (preapprovalEvent ''P2'') (exampleWorld pendingLicense))) = [l]
       \<and> status pendingLicense = Inactive \<and> token pendingLicense = None
       \<and> status l = Active \<and> mpPreapprovalId l = Some ''P2'' \<and> truthy (token l)
       \<and> 1762128000000 + 28 * msPerDay \<le> expiresAt l
       \<and> expiresAt l \<le> 1762128000000 + 31 * msPerDay
       \<and> devices l = Some [] \<and> plan l = Single"
proof -
  let ?pre = "\<lparr> pre_id = ''P2'', pre_status = ''authorized'', external_reference = Some 7 \<rparr>"
  have h3: "first_truthy [body_data_id (preapprovalEvent ''P2''),
      query_data_id (preapprovalEvent ''P2''), body_id (preapprovalEvent ''P2''),
      query_id (preapprovalEvent ''P2'')] = Some ''P2''"
    by (rule preapprovalEvent_id) simp
  have h4: "mp_get acceptingProvider ''P2'' = Inr ?pre"
    by (simp add: acceptingProvider_def)
  have h5: "isAuthorized ?pre"
    by (simp add: isAuthorized_def)
  have h6: "resolveLicense ?pre (exampleWorld pendingLicense) = Some pendingLicense"
    by (simp add: resolveLicense_def referencedUser_def findOne_def exampleWorld_def
        pendingLicense_def exampleLicense_def)
  have h7: "0 \<le> LocalTime exampleEnv 1762128000000"
    by (simp add: LocalTime_def exampleEnv_def)
  have h8: "\<forall>a b. \<bar>LocalTZA exampleEnv a True - LocalTZA exampleEnv b False\<bar> \<le> 0"
    by (simp add: exampleEnv_def)
  have wr: "writable (activated exampleEnv 1762128000000 ''k3x9qa'' ?pre pendingLicense)
      (exampleWorld pendingLicense)"
    using example_token_fits
    by (simp add: writable_def fitsColumns_def clashes_def activated_fields activated_token
        truthy_def exampleWorld_def pendingLicense_def exampleLicense_def)
  from authorized_event_activates
         [OF preapprovalEvent_type example_event_type h3 h4 h5 h6 h7 h8, of "''k3x9qa''"] wr
  show ?thesis
    by (auto simp: exampleWorld_def pendingLicense_def exampleLicense_def)
qed

lemma return_authorized:
  assumes "first_truthy [q_preapproval_id q, q_preapprovalId q, q_id q] = Some d"
    and "mp_get mp d = Inr pre" and "isAuthorized pre"
    and "referencedUser pre = Some u"
    and "findOne (\<lambda>l. userId l = u) w = Some lic"
  shows "licenses (snd (returnHandler e mp now rnd q w))
         = (if writable (activated e now rnd pre lic) w
            then map (\<lambda>x. if lid x = lid lic then activated e now rnd pre lic else x) (licenses w)
            else licenses w)"
proof -
  from assms(1) have "d \<noteq> []" by (rule first_truthy_Some)
  with assms have "snd (returnHandler e mp now rnd q w)
      = snd (activate e mp now rnd pre lic (logCall (MpGet d) w))"
    by (simp add: returnHandler_def getPreapprovalById_def findOne_logCall
        split: prod.splits bool.splits)
  then show ?thesis
    by (simp add: licenses_activate activated_fields licenses_logCall
        writable_same_licenses [OF licenses_logCall])
qed

lemma webhook_ignores_other_events:
  assumes "first_truthy [body_type r, query_type r, body_topic r, query_topic r] = None
         \<or> (\<exists>t. first_truthy [body_type r, query_type r, body_topic r, query_topic r] = Some t
                \<and> \<not> sublist ''preapproval'' t)
         \<or> first_truthy [body_data_id r, query_data_id r, body_id r, query_id r] = None
         \<or> (\<exists>d st. first_truthy [body_data_id r, query_data_id r, body_id r, query_id r] = Some d
                \<and> mp_get mp d = Inl st)"
  shows "licenses (snd (webhook e mp now rnd r w)) = licenses w
       \<and> users (snd (webhook e mp now rnd r w)) = users w"
proof -
  define tp where "tp = first_truthy [body_type r, query_type r, body_topic r, query_topic r]"
  define di where "di = first_truthy [body_data_id r, query_data_id r, body_id r, query_id r]"
  have w: "snd (webhook e mp now rnd r w) = webhookProcess e mp now rnd tp di w"
    by (simp add: webhook_def Let_def tp_def di_def)
  from assms have c: "tp = None \<or> (\<exists>t. tp = Some t \<and> \<not> sublist ''preapproval'' t)
      \<or> di = None \<or> (\<exists>d st. di = Some d \<and> mp_get mp d = Inl st)"
    by (simp only: tp_def di_def)
  have "licenses (webhookProcess e mp now rnd tp di w) = licenses w
      \<and> users (webhookProcess e mp now rnd tp di w) = users w"
  proof (cases tp)
    case None
    then show ?thesis by (simp add: webhookProcess_def)
  next
    case (Some t)
    note t = this
    show ?thesis
    proof (cases di)
      case None
      with t show ?thesis by (simp add: webhookProcess_def)
    next
      case (Some d)
      show ?thesis
      proof (cases "sublist ''preapproval'' t")
        case False
        with t Some show ?thesis by (simp add: webhookProcess_def)
      next
        case True
        with c t Some obtain st where "mp_get mp d = Inl st" by auto
        with t Some True show ?thesis
          by (simp add: webhookProcess_def getPreapprovalById_def licenses_logCall users_logCall)
      qed
    qed
  qed
  then show ?thesis by (simp only: w)
qed


section \<open>Tokens\<close>








































section \<open>Rebinding a preapproval\<close>

text \<open>
  /webhook and /return: when the license has another preapproval bound, the activation
  asks the provider to cancel it and then goes on to the save of the incoming one,
  whatever the provider answers to the cancellation.
\<close>

lemma activate_cancels_old_and_rebinds:
  assumes "mpPreapprovalId lic = Some old" and "old \<noteq> []" and "old \<noteq> pre_id pre"
    and "writable (activated e now rnd pre lic) w"
  shows "activate e mp now rnd pre lic w
         = (True,
            w\<lparr>licenses := map (\<lambda>x. if lid x = lid lic then activated e now rnd pre lic else x)
                              (licenses w),
               mp_log := mp_log w @ [MpUpdate old ''cancelled'']\<rparr>)
       \<and> mpPreapprovalId (activated e now rnd pre lic) = Some (pre_id pre)"
  using assms
  by (simp add: activated_fields activate_def cancelOld_def cancelPreapproval_def save_def
      written_def writable_def logCall_def)

text \<open>
  C2. /subscribe on an account whose license has preapproval P1 bound creates preapproval
  P2 and binds it to the license; the only call to the provider is the creation of P2, and
  no cancellation of P1 is attempted.
\<close>

theorem subscribe_rebinds_without_cancelling:
  "mpPreapprovalId exampleLicense = Some ''P1''
   \<and> subscribe exampleEnv acceptingProvider 1762128000000 (Some 7) ''single'' []
       (exampleWorld exampleLicense)
     = (Response 200 (InitPointJson ''https://mp.example/checkout''),
        \<lparr> licenses = [exampleLicense\<lparr>plan := Single, status := Inactive,
                         mpPreapprovalId := Some ''P2'',
                         expiresAt := 1762128000000 + msPerDay\<rparr>],
          users = [\<lparr> uid = 7, email = ''owner@example.com'' \<rparr>],
          mp_log = [MpCreate \<lparr> reason_plan = Single, payload_external_reference = 7,
                      back_url = ''https://backend.example/return'',
                      payer_email = ''owner@example.com'', transaction_amount = 2999,
                      currency_id = ''ARS'' \<rparr>] \<rparr>)"
proof -
  have "setDate exampleEnv 1762128000000 (getDate exampleEnv 1762128000000 + 1)
      = UTC exampleEnv (LocalTime exampleEnv 1762128000000 + msPerDay)"
    by (rule setDate_next) (simp add: LocalTime_def exampleEnv_def)
  then have sd: "setDate exampleEnv 1762128000000 (Suc (getDate exampleEnv 1762128000000))
      = 1762128000000 + msPerDay"
    by (simp add: UTC_def LocalTime_def exampleEnv_def)
  have env: "httpsBack exampleEnv = Some ''https://backend.example/return''"
    "PRICE_SINGLE exampleEnv = 2999" "PRICE_MULTI exampleEnv = 4499"
    "MP_CURRENCY exampleEnv = ''ARS''"
    by (simp_all add: exampleEnv_def)
  show ?thesis
    by (simp add: subscribe_def createSubscriptionDirect_def parsePlan_def findUser_def
        payerEmailFor_def env sd acceptingProvider_def logCall_def save_def
        written_def writable_def fitsColumns_def clashes_def findOne_def
        exampleWorld_def exampleLicense_def Let_def)
qed

section \<open>The signed assertion\<close>

lemma licensePayload_expiry:
  "exp (licensePayload p now ttlSec) = iat (licensePayload p now ttlSec) + ttlSec
   \<and> iat (licensePayload p now ttlSec) = now div 1000"
  by (simp add: licensePayload_def)

lemma DEFAULT_TTL_SEC_unset: "LICENSE_OFFLINE_TTL_SEC e = None \<Longrightarrow> DEFAULT_TTL_SEC e = 72 * 3600"
  by (simp add: DEFAULT_TTL_SEC_def)

text \<open>
  C8. With a private key configured, \<open>signLicenseJWS\<close> returns an assertion whose payload
  carries the issue time \<open>iat\<close>, the second of the request, and the expiry
  \<open>exp = iat + ttl\<close>, where \<open>ttl\<close> is 72 hours unless the environment sets another
  validity. With the public key of that private key configured, \<open>verifyLicenseJWS\<close>
  returns the payload at every time whose second lies before \<open>exp\<close>, and fails with the
  expiry error at every time from the second \<open>exp\<close> on.
\<close>

theorem assertion_verifies_until_expiry:
  assumes "PRIVATE_PEM e \<noteq> []" and "PUBLIC_PEM e \<noteq> []"
    and "PUBLIC_PEM e = publicKeyOf e (PRIVATE_PEM e)"
  shows "\<exists>j pl. signLicenseJWS e now p = Some j
           \<and> pl = licensePayload p now (DEFAULT_TTL_SEC e)
           \<and> iat pl = now div 1000
           \<and> exp pl = iat pl + DEFAULT_TTL_SEC e
           \<and> (LICENSE_OFFLINE_TTL_SEC e = None \<longrightarrow> exp pl = iat pl + 72 * 3600)
           \<and> (\<forall>t. t div 1000 < exp pl \<longrightarrow> verifyLicenseJWS e t j = Inr pl)
           \<and> (\<forall>t. exp pl \<le> t div 1000 \<longrightarrow> verifyLicenseJWS e t j = Inl ExpiredError)"
proof -
  let ?pl = "licensePayload p now (DEFAULT_TTL_SEC e)"
  let ?j = "JWS ?pl (PRIVATE_PEM e)"
  have s: "signLicenseJWS e now p = Some ?j"
    using assms(1) by (simp add: signLicenseJWS_def jwt_sign_def)
  have v: "verifyLicenseJWS e t ?j
      = (if exp ?pl \<le> t div 1000 then Inl ExpiredError else Inr ?pl)" for t
    using assms(2,3) by (simp add: verifyLicenseJWS_def jwt_verify_def)
  have d: "LICENSE_OFFLINE_TTL_SEC e = None \<longrightarrow> exp ?pl = iat ?pl + 72 * 3600"
    by (simp add: licensePayload_expiry DEFAULT_TTL_SEC_unset)
  have a: "\<forall>t. t div 1000 < exp ?pl \<longrightarrow> verifyLicenseJWS e t ?j = Inr ?pl"
    by (simp add: v)
  have b: "\<forall>t. exp ?pl \<le> t div 1000 \<longrightarrow> verifyLicenseJWS e t ?j = Inl ExpiredError"
    by (simp add: v)
  have i: "iat ?pl = now div 1000" and x: "exp ?pl = iat ?pl + DEFAULT_TTL_SEC e"
    by (simp_all add: licensePayload_expiry)
  show ?thesis
    by (rule exI [of _ ?j], rule exI [of _ ?pl]) (intro conjI s refl i x d a b)
qed

theorem assertion_verifies_until_expiry_witness:
  "signLicenseJWS exampleEnv 1762128000000 (signInput exampleLicense ''A'' 1)
     = Some (exampleAssertion 1762128000000)
   \<and> exp (licensePayload (signInput exampleLicense ''A'' 1) 1762128000000 259200) = 1762387200
   \<and> verifyLicenseJWS exampleEnv 1762387199999 (exampleAssertion 1762128000000)
     = Inr (licensePayload (signInput exampleLicense ''A'' 1) 1762128000000 259200)
   \<and> verifyLicenseJWS exampleEnv 1762387200000 (exampleAssertion 1762128000000)
     = Inl ExpiredError"
proof -
  have h1: "PRIVATE_PEM exampleEnv \<noteq> []" and h2: "PUBLIC_PEM exampleEnv \<noteq> []"
    and h3: "PUBLIC_PEM exampleEnv = publicKeyOf exampleEnv (PRIVATE_PEM exampleEnv)"
    by (simp_all add: exampleEnv_def)
  have ttl: "DEFAULT_TTL_SEC exampleEnv = 259200"
    by (simp add: DEFAULT_TTL_SEC_def exampleEnv_def)
  from assertion_verifies_until_expiry
         [OF h1 h2 h3, of 1762128000000 "signInput exampleLicense ''A'' 1"]
  obtain j pl where j: "signLicenseJWS exampleEnv 1762128000000 (signInput exampleLicense ''A'' 1)
        = Some j"
    and pl: "pl = licensePayload (signInput exampleLicense ''A'' 1) 1762128000000 259200"
    and x: "exp pl = iat pl + 259200" "iat pl = 1762128000000 div 1000"
    and ok: "\<forall>t. t div 1000 < exp pl \<longrightarrow> verifyLicenseJWS exampleEnv t j = Inr pl"
    and late: "\<forall>t. exp pl \<le> t div 1000 \<longrightarrow> verifyLicenseJWS exampleEnv t j = Inl ExpiredError"
    unfolding ttl by blast
  have je: "j = exampleAssertion 1762128000000"
    using j h1 by (simp add: signLicenseJWS_def jwt_sign_def exampleAssertion_def ttl)
      (simp add: exampleEnv_def)
  have e: "exp pl = 1762387200" using x by simp
  have a: "verifyLicenseJWS exampleEnv 1762387199999 j = Inr pl"
    using ok [rule_format, of 1762387199999] e by simp
  have b: "verifyLicenseJWS exampleEnv 1762387200000 j = Inl ExpiredError"
    using late [rule_format, of 1762387200000] e by simp
  from j a b e show ?thesis unfolding je pl by simp
qed

end
